theory Spec2Isabelle
  imports Main "HOL-Library.Word" "HOL-Library.Signed_Division"
begin

section \<open>FgVariant: runtime polymorphic container (FgVariant.hpp)\<close>

text \<open>
  A \<open>Poly<T>\<close> object lives on the heap and holds one value of type \<open>T\<close>. The type
  identity that \<open>dynamic_cast\<close> and \<open>typeid\<close> inspect is the component \<open>typeid\<close>
  of the object (type \<open>'t\<close>); the held value is drawn from a universe \<open>'v\<close> of values.
  Copy construction of a held value yields an equal value.
\<close>

datatype ('t, 'v) Poly = Poly (typeid: 't) (m_data: 'v)

text \<open>
  The heap: the object stored at each address and the next address \<open>new\<close> hands out.
  Addresses below \<open>next\<close> are the allocated ones.
\<close>

type_synonym addr = nat

record ('t, 'v) heap =
  obj :: "addr \<Rightarrow> ('t, 'v) Poly"
  nxt :: addr

definition new :: "('t, 'v) Poly \<Rightarrow> ('t, 'v) heap \<Rightarrow> addr \<times> ('t, 'v) heap" where
  "new p h = (nxt h, h\<lparr>obj := (obj h)(nxt h := p), nxt := Suc (nxt h)\<rparr>)"

text \<open>The variant itself: the (possibly null) pointer \<open>m_poly\<close>.\<close>

record FgVariant =
  m_poly :: "addr option"

text \<open>
  Modelled from the spec: \<open>fgThrow(msg, data)\<close> is declared in \<open>FgException.hpp\<close>, which
  is not among the sources at hand; it throws the library's diagnostic exception. The
  exception carries the message and the type identities used to build its data string.
\<close>

datatype 't FgException = FgException string "'t list"

text \<open>\<open>FgVariant()\<close>\<close>

definition FgVariant_default :: FgVariant where
  "FgVariant_default = \<lparr>m_poly = None\<rparr>"

text \<open>\<open>template<class T> explicit FgVariant(const T & val) : m_poly(new Poly<T>(val))\<close>\<close>

definition FgVariant_val ::
  "'t \<Rightarrow> 'v \<Rightarrow> ('t, 'v) heap \<Rightarrow> FgVariant \<times> ('t, 'v) heap" where
  "FgVariant_val T val h = (case new (Poly T val) h of (a, h') \<Rightarrow> (\<lparr>m_poly = Some a\<rparr>, h'))"


text \<open>\<open>Poly<T>::typeName()\<close>: the name of the held type.\<close>

definition typeName :: "addr \<Rightarrow> ('t, 'v) heap \<Rightarrow> 't" where
  "typeName a h = typeid (obj h a)"


text \<open>\<open>template<class T> void operator=(const T & val) { m_poly.reset(new Poly<T>(val)); }\<close>:
  the new value of \<open>*this\<close> and the heap.\<close>

definition assign_val ::
  "'t \<Rightarrow> 'v \<Rightarrow> FgVariant \<Rightarrow> ('t, 'v) heap \<Rightarrow> FgVariant \<times> ('t, 'v) heap" where
  "assign_val T val this h =
     (case new (Poly T val) h of (a, h') \<Rightarrow> (this\<lparr>m_poly := Some a\<rparr>, h'))"


text \<open>\<open>isType<T>()\<close>: \<open>dynamic_cast<Poly<T>*>(m_poly.get())\<close> is non-null exactly when
  the pointer is non-null and the object it points to is a \<open>Poly<T>\<close>.\<close>

definition dynamic_cast_Poly :: "'t \<Rightarrow> addr option \<Rightarrow> ('t, 'v) heap \<Rightarrow> addr option" where
  "dynamic_cast_Poly T p h =
     (case p of None \<Rightarrow> None
      | Some a \<Rightarrow> if typeid (obj h a) = T then Some a else None)"

definition isType :: "'t \<Rightarrow> FgVariant \<Rightarrow> ('t, 'v) heap \<Rightarrow> bool" where
  "isType T var h = (dynamic_cast_Poly T (m_poly var) h \<noteq> None)"

text \<open>\<open>getRef<T>()\<close> and \<open>getCRef<T>()\<close> return a reference to \<open>m_data\<close> of the held
  object; \<open>getRef\<close> is \<open>const_cast<T&>(getCRef<T>())\<close>. The reference is the address of
  the object; \<open>getCRef\<close> below reads the referenced value.\<close>

definition getRef :: "'t \<Rightarrow> FgVariant \<Rightarrow> ('t, 'v) heap \<Rightarrow> 't FgException + addr" where
  "getRef T var h =
     (case m_poly var of
        None \<Rightarrow> Inl (FgException ''Variant NULL dereferenced as'' [T])
      | Some a \<Rightarrow>
          (case dynamic_cast_Poly T (m_poly var) h of
             None \<Rightarrow> Inl (FgException ''Variant incompatible type dereference from/to''
                            [typeName a h, T])
           | Some ptr \<Rightarrow> Inr ptr))"

definition getCRef :: "'t \<Rightarrow> FgVariant \<Rightarrow> ('t, 'v) heap \<Rightarrow> 't FgException + 'v" where
  "getCRef T var h =
     (case getRef T var h of Inl e \<Rightarrow> Inl e | Inr ptr \<Rightarrow> Inr (m_data (obj h ptr)))"



text \<open>What a variant holds: nothing, or the object its pointer refers to.\<close>

definition held :: "FgVariant \<Rightarrow> ('t, 'v) heap \<Rightarrow> ('t, 'v) Poly option" where
  "held var h = (case m_poly var of None \<Rightarrow> None | Some a \<Rightarrow> Some (obj h a))"


section \<open>Native dialogs (the Windows dialog shell)\<close>

unbundle bit_operations_syntax

subsection \<open>Exceptions and the exception/state discipline\<close>

text \<open>
  The exceptions of the dialog shell. \<open>FgAssert\<close> and \<open>FgAssertWin\<close> are the failures
  of the two assertion macros, with the source line of the assertion; \<open>NullString\<close>
  stands for constructing an \<open>FgString\<close> from a null \<open>PWSTR\<close> (undefined in C++) and
  \<open>UserException\<close> for anything thrown by code the caller passes in.
\<close>

datatype error = FgAssert nat | FgAssertWin nat | NullString nat | UserException string

text \<open>A statement runs on a state and either throws or returns a value; the state
  persists in both cases.\<close>

type_synonym ('s, 'a) stmt = "'s \<Rightarrow> (error + 'a) \<times> 's"

definition ret :: "'a \<Rightarrow> ('s, 'a) stmt" where
  "ret x = (\<lambda>s. (Inr x, s))"

definition throw :: "error \<Rightarrow> ('s, 'a) stmt" where
  "throw e = (\<lambda>s. (Inl e, s))"

definition bnd :: "('s, 'a) stmt \<Rightarrow> ('a \<Rightarrow> ('s, 'b) stmt) \<Rightarrow> ('s, 'b) stmt" where
  "bnd m f = (\<lambda>s. case m s of (Inl e, s') \<Rightarrow> (Inl e, s') | (Inr x, s') \<Rightarrow> f x s')"

definition thn :: "('s, unit) stmt \<Rightarrow> ('s, 'b) stmt \<Rightarrow> ('s, 'b) stmt" where
  "thn m k = bnd m (\<lambda>_. k)"

text \<open>
  Modelled from the spec: the macros \<open>FGASSERT\<close> and \<open>FGASSERTWIN\<close> are defined in
  headers that are not among the sources at hand. As the specification's section 7 has
  it, a violated precondition fails fast with a diagnostic naming it: the macro throws
  when its condition is false, and the diagnostic names the file and line.
\<close>

definition FGASSERT :: "nat \<Rightarrow> bool \<Rightarrow> ('s, unit) stmt" where
  "FGASSERT line c = (if c then ret () else throw (FgAssert line))"

definition FGASSERTWIN :: "nat \<Rightarrow> bool \<Rightarrow> ('s, unit) stmt" where
  "FGASSERTWIN line c = (if c then ret () else throw (FgAssertWin line))"

subsection \<open>File and directory dialogs\<close>

text \<open>
  \<open>HRESULT\<close> is a signed 32-bit value and \<open>SUCCEEDED(hr)\<close> is \<open>hr >= 0\<close> (Windows SDK).
\<close>

type_synonym HRESULT = "32 word"

definition SUCCEEDED :: "HRESULT \<Rightarrow> bool" where
  "SUCCEEDED hr = (0 \<le> sint hr)"

definition FOS_FORCEFILESYSTEM :: "32 word" where
  "FOS_FORCEFILESYSTEM = 0x40"

definition FOS_PICKFOLDERS :: "32 word" where
  "FOS_PICKFOLDERS = 0x20"

text \<open>
  What the operating system answers to each COM call of one dialog invocation: the
  \<open>HRESULT\<close> of every call, the option flags \<open>GetOptions\<close> reports, and the value
  \<open>GetDisplayName\<close> leaves in \<open>pszFilePath\<close> (\<open>None\<close> for \<open>NULL\<close>). A user who cancels
  the dialog shows as a failing \<open>hr_Show\<close>.
\<close>

record dialog_os =
  hr_CoCreateInstance :: HRESULT
  hr_SetClientGuid :: HRESULT
  hr_GetOptions :: HRESULT
  dwFlags :: "32 word"
  hr_SetOptions :: HRESULT
  hr_SetFileTypes :: HRESULT
  hr_SetFileTypeIndex :: HRESULT
  hr_SetDefaultExtension :: HRESULT
  hr_Show :: HRESULT
  hr_GetResult :: HRESULT
  hr_GetDisplayName :: HRESULT
  pszFilePath :: "string option"

text \<open>
  The native handles a dialog call owns, and the calls it makes in order. \<open>Acquired\<close> is
  logged when a call has handed out a handle, \<open>Released\<close> when \<open>Release()\<close> is called
  on it.
\<close>

datatype handle = IFileDialog | IShellItem

datatype event =
    Call_CoCreateInstance
  | Call_SetClientGuid
  | Call_GetOptions
  | Call_SetOptions "32 word"
  | Call_SetFileTypes string string
  | Call_SetFileTypeIndex nat
  | Call_SetDefaultExtension string
  | Call_Show
  | Call_GetResult
  | Call_GetDisplayName
  | Call_CoTaskMemFree
  | Acquired handle
  | Released handle

definition emit :: "event \<Rightarrow> (event list, unit) stmt" where
  "emit ev = (\<lambda>t. (Inr (), t @ [ev]))"

text \<open>A COM call that hands out a handle when it succeeds.\<close>

definition acquire :: "event \<Rightarrow> HRESULT \<Rightarrow> handle \<Rightarrow> (event list, unit) stmt" where
  "acquire ev hr h = thn (emit ev) (if SUCCEEDED hr then emit (Acquired h) else ret ())"

text \<open>
  Modelled from the spec: \<open>FgScopeGuard\<close> is defined in \<open>FgScopeGuard.hpp\<close>, which is not
  among the sources at hand. \<open>FgScopeGuard sg(boost::bind(pfdRelease,pfd))\<close> runs
  \<open>pfdRelease(pfd)\<close> when the enclosing scope is left, by return or by exception
  ("guaranteed release on every exit path").
\<close>

definition FgScopeGuard :: "event \<Rightarrow> (event list, 'a) stmt \<Rightarrow> (event list, 'a) stmt" where
  "FgScopeGuard ev body = (\<lambda>t. case body t of (r, t') \<Rightarrow> (r, t' @ [ev]))"

text \<open>The filter string: \<open>"*." + extensions[0]\<close>, then \<open>";*." + extensions[ii]\<close> for each
  further extension. The assertion on line 42 excludes the empty list before
  \<open>extensions[0]\<close> is read.\<close>

fun exts_spec :: "string list \<Rightarrow> string" where
  "exts_spec [] = []"
| "exts_spec (e # es) = ''*.'' @ e @ concat (map (\<lambda>x. '';*.'' @ x) es)"

text \<open>The part of the three dialog functions from \<open>Show\<close> on, as each of them writes
  it: \<open>GetResult\<close> hands out the \<open>IShellItem\<close>, \<open>GetDisplayName\<close> the path.\<close>

definition fetch_Load :: "dialog_os \<Rightarrow> (event list, string option) stmt" where
  "fetch_Load os =
     thn (emit Call_Show)
     (if SUCCEEDED (hr_Show os) then
        thn (acquire Call_GetResult (hr_GetResult os) IShellItem)
        (if SUCCEEDED (hr_GetResult os) then
           thn (emit Call_GetDisplayName)
           (bnd (if SUCCEEDED (hr_GetDisplayName os) \<and> pszFilePath os \<noteq> None
                 then thn (emit Call_CoTaskMemFree) (ret (pszFilePath os))
                 else ret None)
              (\<lambda>r. thn (emit (Released IShellItem)) (ret r)))
         else ret None)
      else ret None)"

definition fetch_Save :: "dialog_os \<Rightarrow> (event list, string option) stmt" where
  "fetch_Save os =
     thn (emit Call_Show)
     (if SUCCEEDED (hr_Show os) then
        thn (acquire Call_GetResult (hr_GetResult os) IShellItem)
        (if SUCCEEDED (hr_GetResult os) then
           thn (emit Call_GetDisplayName)
           (bnd (if SUCCEEDED (hr_GetDisplayName os)
                 then (case pszFilePath os of
                         None \<Rightarrow> throw (NullString 146)
                       | Some path \<Rightarrow> thn (emit Call_CoTaskMemFree) (ret (Some path)))
                 else ret None)
              (\<lambda>r. thn (emit (Released IShellItem)) (ret r)))
         else ret None)
      else ret None)"

definition fetch_Dir :: "(string \<Rightarrow> string) \<Rightarrow> dialog_os \<Rightarrow> (event list, string option) stmt" where
  "fetch_Dir fgAsDirectory os =
     thn (emit Call_Show)
     (if SUCCEEDED (hr_Show os) then
        thn (acquire Call_GetResult (hr_GetResult os) IShellItem)
        (if SUCCEEDED (hr_GetResult os) then
           thn (emit Call_GetDisplayName)
           (if SUCCEEDED (hr_GetDisplayName os)
            then (case pszFilePath os of
                    None \<Rightarrow> throw (NullString 179)
                  | Some path \<Rightarrow> thn (emit Call_CoTaskMemFree) (ret (Some (fgAsDirectory path))))
            else thn (emit (Released IShellItem)) (ret None))
         else ret None)
      else ret None)"

text \<open>\<open>fgGuiDialogFileLoad(description, extensions)\<close>. The GUID passed to
  \<open>SetClientGuid\<close> is computed from the description; its value plays no part below.\<close>

definition fgGuiDialogFileLoad ::
  "dialog_os \<Rightarrow> string \<Rightarrow> string list \<Rightarrow> (event list, string option) stmt" where
  "fgGuiDialogFileLoad os description extensions =
     thn (FGASSERT 42 (extensions \<noteq> []))
     (thn (acquire Call_CoCreateInstance (hr_CoCreateInstance os) IFileDialog)
     (thn (FGASSERTWIN 47 (SUCCEEDED (hr_CoCreateInstance os)))
     (FgScopeGuard (Released IFileDialog)
       (thn (emit Call_SetClientGuid)
       (thn (FGASSERTWIN 59 (SUCCEEDED (hr_SetClientGuid os)))
       (thn (emit Call_GetOptions)
       (thn (FGASSERTWIN 63 (SUCCEEDED (hr_GetOptions os)))
       (thn (emit (Call_SetOptions (dwFlags os OR FOS_FORCEFILESYSTEM)))
       (thn (FGASSERTWIN 66 (SUCCEEDED (hr_SetOptions os)))
       (thn (emit (Call_SetFileTypes description (exts_spec extensions)))
       (thn (FGASSERTWIN 75 (SUCCEEDED (hr_SetFileTypes os)))
       (thn (emit (Call_SetFileTypeIndex 1))
       (thn (FGASSERTWIN 78 (SUCCEEDED (hr_SetFileTypeIndex os)))
       (fetch_Load os))))))))))))))"

text \<open>\<open>fgGuiDialogFileSave(description, extension)\<close>; the result of
  \<open>SetDefaultExtension\<close> is overwritten unread.\<close>

definition fgGuiDialogFileSave ::
  "dialog_os \<Rightarrow> string \<Rightarrow> string \<Rightarrow> (event list, string option) stmt" where
  "fgGuiDialogFileSave os description extension =
     thn (FGASSERT 101 (extension \<noteq> []))
     (thn (acquire Call_CoCreateInstance (hr_CoCreateInstance os) IFileDialog)
     (thn (FGASSERTWIN 106 (SUCCEEDED (hr_CoCreateInstance os)))
     (FgScopeGuard (Released IFileDialog)
       (thn (emit Call_SetClientGuid)
       (thn (FGASSERTWIN 118 (SUCCEEDED (hr_SetClientGuid os)))
       (thn (emit Call_GetOptions)
       (thn (FGASSERTWIN 122 (SUCCEEDED (hr_GetOptions os)))
       (thn (emit (Call_SetOptions (dwFlags os OR FOS_FORCEFILESYSTEM)))
       (thn (FGASSERTWIN 125 (SUCCEEDED (hr_SetOptions os)))
       (thn (emit (Call_SetFileTypes description (''*.'' @ extension)))
       (thn (FGASSERTWIN 132 (SUCCEEDED (hr_SetFileTypes os)))
       (thn (emit (Call_SetFileTypeIndex 1))
       (thn (FGASSERTWIN 135 (SUCCEEDED (hr_SetFileTypeIndex os)))
       (thn (emit (Call_SetDefaultExtension extension))
       (fetch_Save os)))))))))))))))"

text \<open>\<open>fgGuiDialogDirSelect()\<close>; \<open>fgAsDirectory\<close> is defined elsewhere in the library
  and is a parameter here.\<close>

definition fgGuiDialogDirSelect ::
  "(string \<Rightarrow> string) \<Rightarrow> dialog_os \<Rightarrow> (event list, string option) stmt" where
  "fgGuiDialogDirSelect fgAsDirectory os =
     thn (acquire Call_CoCreateInstance (hr_CoCreateInstance os) IFileDialog)
     (thn (FGASSERTWIN 162 (SUCCEEDED (hr_CoCreateInstance os)))
     (FgScopeGuard (Released IFileDialog)
       (thn (emit Call_GetOptions)
       (thn (FGASSERTWIN 167 (SUCCEEDED (hr_GetOptions os)))
       (thn (emit (Call_SetOptions (dwFlags os OR FOS_FORCEFILESYSTEM OR FOS_PICKFOLDERS)))
       (thn (FGASSERTWIN 170 (SUCCEEDED (hr_SetOptions os)))
       (fetch_Dir fgAsDirectory os)))))))"

text \<open>Handles still owned at the end of a trace: acquired and not released since.\<close>

fun owned :: "event list \<Rightarrow> handle list \<Rightarrow> handle list" where
  "owned [] hs = hs"
| "owned (Acquired h # evs) hs = owned evs (h # hs)"
| "owned (Released h # evs) hs = owned evs (remove1 h hs)"
| "owned (_ # evs) hs = owned evs hs"

definition leaked :: "event list \<Rightarrow> handle list" where
  "leaked evs = owned evs []"

text \<open>
  The operating system's side of the properties of the file dialogs. The calls that set a
  dialog up all succeed; the user confirms a selection when \<open>Show\<close> succeeds and the
  selected item yields its path; the user cancels when \<open>Show\<close> fails (it then returns
  \<open>HRESULT_FROM_WIN32(ERROR_CANCELLED)\<close>, the failure code \<open>0x800704C7\<close>).
\<close>

definition setup_ok :: "dialog_os \<Rightarrow> bool" where
  "setup_ok os =
     (SUCCEEDED (hr_CoCreateInstance os) \<and> SUCCEEDED (hr_SetClientGuid os) \<and>
      SUCCEEDED (hr_GetOptions os) \<and> SUCCEEDED (hr_SetOptions os) \<and>
      SUCCEEDED (hr_SetFileTypes os) \<and> SUCCEEDED (hr_SetFileTypeIndex os))"

definition user_confirms :: "dialog_os \<Rightarrow> string \<Rightarrow> bool" where
  "user_confirms os path =
     (SUCCEEDED (hr_Show os) \<and> SUCCEEDED (hr_GetResult os) \<and>
      SUCCEEDED (hr_GetDisplayName os) \<and> pszFilePath os = Some path)"

definition user_cancels :: "dialog_os \<Rightarrow> bool" where
  "user_cancels os = (\<not> SUCCEEDED (hr_Show os))"

text \<open>Two concrete runs: every call returns \<open>S_OK\<close> and the item's path is
  \<open>C:/faces/a.png\<close>; and the same with the user cancelling.\<close>

definition os_confirm :: dialog_os where
  "os_confirm =
     \<lparr>hr_CoCreateInstance = 0, hr_SetClientGuid = 0, hr_GetOptions = 0, dwFlags = 0,
      hr_SetOptions = 0, hr_SetFileTypes = 0, hr_SetFileTypeIndex = 0,
      hr_SetDefaultExtension = 0, hr_Show = 0, hr_GetResult = 0, hr_GetDisplayName = 0,
      pszFilePath = Some ''C:/faces/a.png''\<rparr>"

definition os_cancel :: dialog_os where
  "os_cancel = os_confirm\<lparr>hr_Show := 0x800704C7, pszFilePath := None\<rparr>"

subsection \<open>Progress dialog\<close>

type_synonym HWND = nat

datatype wm =
  WM_CREATE | WM_COMMAND | WM_QUIT | WM_INITDIALOG | WM_ERASEBKGND | WM_PAINT | WM_OTHER nat

record MSG =
  hwnd :: HWND
  message :: wm
  wParam :: "64 word"

text \<open>\<open>LOWORD\<close> and \<open>HIWORD\<close> of the Windows SDK.\<close>

definition LOWORD :: "64 word \<Rightarrow> 16 word" where
  "LOWORD l = ucast (l AND 0xffff)"

definition HIWORD :: "64 word \<Rightarrow> 16 word" where
  "HIWORD l = ucast (drop_bit 16 l AND 0xffff)"

text \<open>Messages a progress bar control is sent.\<close>

datatype pbm = PBM_SETRANGE "16 word" "16 word" | PBM_SETSTEP nat | PBM_STEPIT

record FgGuiWinDialogProgress =
  progressSteps :: "32 word"
  hwndThis :: HWND
  hwndPb :: HWND
  hwndButton :: HWND

text \<open>
  The state the progress dialog works on: the static \<open>s_cancel\<close>; the thread's message
  queue; the messages sent to progress bars so far; the live dialog windows, each with
  the object whose \<open>wndProc\<close> is its window procedure; and the handles
  \<open>CreateWindowEx\<close> will hand out next (none left: it returns \<open>NULL\<close>).
\<close>

record gui =
  s_cancel :: bool
  queue :: "MSG list"
  sent :: "(HWND \<times> pbm) list"
  dlg :: "HWND \<rightharpoonup> FgGuiWinDialogProgress"
  fresh :: "HWND list"

definition SendMessage :: "HWND \<Rightarrow> pbm \<Rightarrow> (gui, unit) stmt" where
  "SendMessage h m = (\<lambda>s. (Inr (), s\<lparr>sent := sent s @ [(h, m)]\<rparr>))"

definition CreateWindowEx :: "(gui, HWND) stmt" where
  "CreateWindowEx = (\<lambda>s. case fresh s of
                           [] \<Rightarrow> (Inr 0, s)
                         | h # hs \<Rightarrow> (Inr h, s\<lparr>fresh := hs\<rparr>))"

definition DestroyWindow :: "HWND \<Rightarrow> (gui, unit) stmt" where
  "DestroyWindow h = (\<lambda>s. (Inr (), s\<lparr>dlg := (dlg s)(h := None)\<rparr>))"

definition set_cancel :: "bool \<Rightarrow> (gui, unit) stmt" where
  "set_cancel b = (\<lambda>s. (Inr (), s\<lparr>s_cancel := b\<rparr>))"

text \<open>\<open>FgGuiWinDialogProgress::wndProc\<close>; the result is the object after the call
  (\<open>DefWindowProc\<close> changes nothing that is modelled).\<close>

definition wndProc ::
  "HWND \<Rightarrow> wm \<Rightarrow> 64 word \<Rightarrow> FgGuiWinDialogProgress \<Rightarrow> (gui, FgGuiWinDialogProgress) stmt" where
  "wndProc hwnd' message' wParam' d =
     (if message' = WM_CREATE then
        bnd CreateWindowEx (\<lambda>pb.
        thn (FGASSERTWIN 232 (pb \<noteq> 0))
        (thn (SendMessage pb (PBM_SETRANGE 0 (ucast (progressSteps d))))
        (thn (SendMessage pb (PBM_SETSTEP 1))
        (bnd CreateWindowEx (\<lambda>button.
        thn (FGASSERTWIN 246 (button \<noteq> 0))
        (ret (d\<lparr>hwndThis := hwnd', hwndPb := pb, hwndButton := button\<rparr>)))))))
      else if message' = WM_COMMAND then
        (if HIWORD wParam' = 0 then
           thn (FGASSERT 254 (LOWORD wParam' = 0)) (thn (set_cancel True) (ret d))
         else ret d)
      else ret d)"

text \<open>\<open>DispatchMessage\<close>: the message goes to the window procedure of its window.
  Windows that are not progress dialogs do not touch the modelled state.\<close>

definition DispatchMessage :: "MSG \<Rightarrow> (gui, unit) stmt" where
  "DispatchMessage m =
     (\<lambda>s. case dlg s (hwnd m) of
            None \<Rightarrow> (Inr (), s)
          | Some d \<Rightarrow>
              bnd (wndProc (hwnd m) (message m) (wParam m) d)
                  (\<lambda>d' s'. (Inr (), s'\<lparr>dlg := (dlg s')(hwnd m \<mapsto> d')\<rparr>)) s)"

text \<open>
  The message loop of \<open>progress\<close>: \<open>PeekMessageW(..., PM_REMOVE)\<close> takes the head of
  the queue until the queue is empty. The queue holds the finitely many messages that are
  pending when the loop starts; no window procedure modelled here posts a message, so
  the list the loop walks is the queue (it is written back at each step, and
  \<open>DispatchMessage\<close> leaves it alone).
\<close>

fun pump :: "MSG list \<Rightarrow> (gui, bool) stmt" where
  "pump [] = (\<lambda>s. (Inr False, s))"
| "pump (m # ms) =
     (\<lambda>s. let s1 = s\<lparr>queue := ms\<rparr> in
           if message m = WM_QUIT then (Inr True, s1)
           else (case DispatchMessage m s1 of
                   (Inl e, s2) \<Rightarrow> (Inl e, s2)
                 | (Inr _, s2) \<Rightarrow> pump ms s2))"

text \<open>\<open>static bool progress(HWND hwndPb, bool milestone)\<close>\<close>

definition progress :: "HWND \<Rightarrow> bool \<Rightarrow> (gui, bool) stmt" where
  "progress hwndPb' milestone =
     (\<lambda>s. if s_cancel s then (Inr True, s)
           else thn (if milestone then SendMessage hwndPb' PBM_STEPIT else ret ())
                    (\<lambda>s'. pump (queue s') s') s)"

text \<open>
  \<open>fgGuiDialogProgress(title, progressSteps, actionProgress)\<close>. \<open>fgCreateDialog\<close> belongs
  to another file of the library and is a parameter: given the title and the dialog
  object it returns the window handle and the object as \<open>WM_CREATE\<close> left it. The
  fields of \<open>d\<close> other than \<open>progressSteps\<close> start uninitialised (here: 0).
\<close>

definition fgGuiDialogProgress ::
  "(string \<Rightarrow> FgGuiWinDialogProgress \<Rightarrow> (gui, HWND \<times> FgGuiWinDialogProgress) stmt) \<Rightarrow>
   string \<Rightarrow> 32 word \<Rightarrow> (((bool \<Rightarrow> (gui, bool) stmt) \<Rightarrow> (gui, unit) stmt)) \<Rightarrow> (gui, unit) stmt" where
  "fgGuiDialogProgress fgCreateDialog title progressSteps' actionProgress =
     bnd (fgCreateDialog title
            \<lparr>progressSteps = progressSteps', hwndThis = 0, hwndPb = 0, hwndButton = 0\<rparr>)
       (\<lambda>(h, d).
          thn (set_cancel False)
          (\<lambda>s. case actionProgress (progress (hwndPb d)) s of
                 (Inl e, s') \<Rightarrow> thn (DestroyWindow h) (throw e) s'
               | (Inr _, s') \<Rightarrow> DestroyWindow h s'))"

text \<open>
  A window-creating \<open>fgCreateDialog\<close> for running the dialog on concrete inputs: it takes
  the next handle, makes the object's \<open>wndProc\<close> the window procedure and delivers
  \<open>WM_CREATE\<close> to it.
\<close>

definition fgCreateDialog_win ::
  "string \<Rightarrow> FgGuiWinDialogProgress \<Rightarrow> (gui, HWND \<times> FgGuiWinDialogProgress) stmt" where
  "fgCreateDialog_win title d =
     bnd CreateWindowEx (\<lambda>h.
     bnd (wndProc h WM_CREATE 0 d) (\<lambda>d'.
     (\<lambda>s. (Inr (h, d'), s\<lparr>dlg := (dlg s)(h \<mapsto> d')\<rparr>))))"

text \<open>The number of \<open>PBM_STEPIT\<close> messages a progress bar has been sent; each advances
  the bar by the step increment, which \<open>WM_CREATE\<close> sets to 1.\<close>

definition steps :: "HWND \<Rightarrow> gui \<Rightarrow> nat" where
  "steps h s = length (filter (\<lambda>x. x = (h, PBM_STEPIT)) (sent s))"

text \<open>
  Messages whose dispatch trips no assertion of \<open>wndProc\<close>: \<open>WM_CREATE\<close> is sent
  during window creation and never queued, and a command with notification code 0 comes
  from the Cancel button, whose identifier is 0.
\<close>

definition well_formed_msg :: "MSG \<Rightarrow> bool" where
  "well_formed_msg m =
     (message m \<noteq> WM_CREATE \<and>
      (if message m = WM_COMMAND \<and> HIWORD (wParam m) = 0 then LOWORD (wParam m) = 0 else True))"

definition is_quit :: "MSG \<Rightarrow> bool" where
  "is_quit m = (message m = WM_QUIT)"

text \<open>The queued messages the loop of \<open>progress\<close> gets to dispatch: those in front of the
  first \<open>WM_QUIT\<close>, at which the loop returns.\<close>

definition handled :: "MSG list \<Rightarrow> MSG list" where
  "handled ms = takeWhile (\<lambda>m. \<not> is_quit m) ms"

text \<open>A queued message is a click on Cancel when it is a command with notification
  code 0 addressed to a live progress dialog.\<close>

definition clicks :: "gui \<Rightarrow> MSG \<Rightarrow> bool" where
  "clicks s m = (dlg s (hwnd m) \<noteq> None \<and> message m = WM_COMMAND \<and> HIWORD (wParam m) = 0)"

text \<open>
  Concrete states: a live dialog (window 5, progress bar 7, button 8) with a click on
  Cancel queued; the state before any dialog exists, with the handles 5, 7 and 8 to be
  handed out; and that state after \<open>fgCreateDialog_win\<close> has created the dialog.
\<close>

definition dlg_obj :: FgGuiWinDialogProgress where
  "dlg_obj = \<lparr>progressSteps = 10, hwndThis = 5, hwndPb = 7, hwndButton = 8\<rparr>"

definition gui_click :: gui where
  "gui_click =
     \<lparr>s_cancel = False, queue = [\<lparr>hwnd = 5, message = WM_COMMAND, wParam = 0\<rparr>],
      sent = [], dlg = [5 \<mapsto> dlg_obj], fresh = []\<rparr>"

definition gui_start :: gui where
  "gui_start = \<lparr>s_cancel = True, queue = [], sent = [], dlg = Map.empty, fresh = [5, 7, 8]\<rparr>"

definition gui_created :: gui where
  "gui_created =
     \<lparr>s_cancel = True, queue = [],
      sent = [(7, PBM_SETRANGE 0 10), (7, PBM_SETSTEP 1)],
      dlg = [5 \<mapsto> dlg_obj], fresh = []\<rparr>"

text \<open>The same dialog with \<open>WM_QUIT\<close> queued instead of the click.\<close>

definition gui_quit :: gui where
  "gui_quit = gui_click\<lparr>queue := [\<lparr>hwnd = 0, message = WM_QUIT, wParam = 0\<rparr>]\<rparr>"

text \<open>And with \<open>WM_QUIT\<close> queued in front of the click.\<close>

definition gui_quit_click :: gui where
  "gui_quit_click =
     gui_click\<lparr>queue := [\<lparr>hwnd = 0, message = WM_QUIT, wParam = 0\<rparr>,
                         \<lparr>hwnd = 5, message = WM_COMMAND, wParam = 0\<rparr>]\<rparr>"

text \<open>The state a milestone call leaves when it starts in \<open>gui_click\<close>.\<close>

definition after_click :: gui where
  "after_click = snd (progress 7 True gui_click)"

text \<open>Two callers' work functions: one reports two milestones, one reports a milestone
  and then throws.\<close>

definition two_milestones :: "(bool \<Rightarrow> (gui, bool) stmt) \<Rightarrow> (gui, unit) stmt" where
  "two_milestones cb = bnd (cb True) (\<lambda>_. bnd (cb True) (\<lambda>_. ret ()))"

definition failing_work :: "(bool \<Rightarrow> (gui, bool) stmt) \<Rightarrow> (gui, unit) stmt" where
  "failing_work cb = bnd (cb True) (\<lambda>_. throw (UserException ''out of memory''))"

subsection \<open>Splash screen\<close>

definition s_splashSize :: int where
  "s_splashSize = 256"

record RECT =
  left :: int
  top :: int
  right :: int
  bottom :: int

text \<open>
  What the system answers while the splash screen is shown: the work area reported by
  \<open>SystemParametersInfo(SPI_GETWORKAREA)\<close>, the handle \<open>CreateDialogIndirectParam\<close>
  returns (0 for \<open>NULL\<close>), whether \<open>LoadImage\<close> finds the icon resource and whether
  \<open>DrawIconEx\<close> succeeds.
\<close>

record splash_os =
  workarea :: RECT
  new_splash :: HWND
  icon_found :: bool
  DrawIconEx_ok :: bool

text \<open>
  The static \<open>s_fgGuiWinDialogSplashScreen.hwndThis\<close>, and the system's side: position
  and size of each window as \<open>SetWindowPos\<close> set it (x, y, width, height, in screen
  coordinates for a top-level window), the dialogs on screen, the images drawn (window,
  width, height) and the \<open>EndDialog\<close> calls made.
\<close>

record splash =
  splash_hwndThis :: HWND
  placement :: "HWND \<rightharpoonup> (int \<times> int \<times> int \<times> int)"
  visible :: "HWND list"
  drawn :: "(HWND \<times> int \<times> int) list"
  end_calls :: "HWND list"

definition SetWindowPos :: "HWND \<Rightarrow> int \<Rightarrow> int \<Rightarrow> int \<Rightarrow> int \<Rightarrow> (splash, unit) stmt" where
  "SetWindowPos h x y cx cy = (\<lambda>s. (Inr (), s\<lparr>placement := (placement s)(h \<mapsto> (x, y, cx, cy))\<rparr>))"

definition EndDialog :: "HWND \<Rightarrow> (splash, unit) stmt" where
  "EndDialog h = (\<lambda>s. (Inr (), s\<lparr>visible := removeAll h (visible s),
                                   end_calls := end_calls s @ [h]\<rparr>))"

definition draw :: "HWND \<Rightarrow> int \<Rightarrow> int \<Rightarrow> (splash, unit) stmt" where
  "draw h w ht = (\<lambda>s. (Inr (), s\<lparr>drawn := drawn s @ [(h, w, ht)]\<rparr>))"

text \<open>
  \<open>FgGuiWinDialogSplashScreen::wndProc\<close>, returning its \<open>LRESULT\<close>. The C \<open>int\<close> division
  truncates towards zero (\<open>sdiv\<close>); coordinates are taken as mathematical integers, the
  subtraction of screen coordinates being far from the range of \<open>int\<close>. The image
  \<open>img\<close> is constructed \<open>s_splashSize\<close> wide and high.
\<close>

definition splash_wndProc :: "splash_os \<Rightarrow> HWND \<Rightarrow> wm \<Rightarrow> (splash, int) stmt" where
  "splash_wndProc os hwnd' msg =
     (if msg = WM_INITDIALOG then
        thn (\<lambda>s. (Inr (), s\<lparr>splash_hwndThis := hwnd'\<rparr>))
        (let rect = workarea os;
             x = (right rect - left rect - s_splashSize) sdiv 2;
             y = (bottom rect - top rect - s_splashSize) sdiv 2
         in thn (SetWindowPos hwnd' x y s_splashSize s_splashSize) (ret 1))
      else if msg = WM_ERASEBKGND then ret 1
      else if msg = WM_PAINT then
        (if \<not> icon_found os then thn (draw hwnd' s_splashSize s_splashSize) (ret 0)
         else thn (if DrawIconEx_ok os then draw hwnd' s_splashSize s_splashSize else ret ())
              (thn (FGASSERTWIN 349 (DrawIconEx_ok os)) (ret 0)))
      else ret 0)"

text \<open>\<open>CreateDialogIndirectParam\<close> with style \<open>WS_POPUP | WS_VISIBLE\<close>: a created
  dialog receives \<open>WM_INITDIALOG\<close> through the dialog procedure and is shown.\<close>

definition CreateDialogIndirectParam :: "splash_os \<Rightarrow> (splash, HWND) stmt" where
  "CreateDialogIndirectParam os =
     (if new_splash os = 0 then ret 0
      else bnd (splash_wndProc os (new_splash os) WM_INITDIALOG) (\<lambda>_.
           thn (\<lambda>s. (Inr (), s\<lparr>visible := new_splash os # visible s\<rparr>))
               (ret (new_splash os))))"

text \<open>\<open>static void fgGuiWinDialogSplashClose()\<close>\<close>

definition fgGuiWinDialogSplashClose :: "(splash, unit) stmt" where
  "fgGuiWinDialogSplashClose =
     (\<lambda>s. if splash_hwndThis s \<noteq> 0 then EndDialog (splash_hwndThis s) s else (Inr (), s))"

text \<open>\<open>fgGuiDialogSplashScreen()\<close> returns the address of the close function.\<close>

definition fgGuiDialogSplashScreen :: "splash_os \<Rightarrow> (splash, (splash, unit) stmt) stmt" where
  "fgGuiDialogSplashScreen os =
     bnd (CreateDialogIndirectParam os) (\<lambda>res.
     thn (FGASSERTWIN 384 (res \<noteq> 0))
     (ret fgGuiWinDialogSplashClose))"

text \<open>A window placed at \<open>(x, y)\<close> with size \<open>(cx, cy)\<close> is centred in a rectangle when
  its margins on opposite sides differ by at most the one pixel integer division loses.\<close>

definition centred :: "RECT \<Rightarrow> int \<times> int \<times> int \<times> int \<Rightarrow> bool" where
  "centred r p =
     (case p of (x, y, cx, cy) \<Rightarrow>
        \<bar>(x - left r) - (right r - (x + cx))\<bar> \<le> 1 \<and>
        \<bar>(y - top r) - (bottom r - (y + cy))\<bar> \<le> 1)"

text \<open>
  A screen of 1920 by 1080 pixels whose taskbar is docked at the left edge and is 100
  pixels wide, and the state before the splash screen is created.
\<close>

definition os_docked :: splash_os where
  "os_docked =
     \<lparr>workarea = \<lparr>left = 100, top = 0, right = 1920, bottom = 1080\<rparr>,
      new_splash = 3, icon_found = True, DrawIconEx_ok = True\<rparr>"

definition splash_start :: splash where
  "splash_start =
     \<lparr>splash_hwndThis = 0, placement = Map.empty, visible = [], drawn = [], end_calls = []\<rparr>"

section \<open>Mesh operations (Fg3dMeshOps.hpp)\<close>

text \<open>
  Modelled from the spec: the header declares the operations; their bodies and the type
  \<open>Fg3dMesh\<close> are in files that are not part of the sources at hand. The data model
  below is that of the specification's section 3: facets, surfaces, morph targets (dense
  or sparse) and the mesh. Positions and deltas are values of a type \<open>'v\<close>, weights of a
  type \<open>'w\<close>.
\<close>

record facet =
  vertInds :: "nat list"
  uvInds :: "nat list option"

record 'v surface =
  sname :: string
  facets :: "facet list"
  surfPoints :: "(string \<times> nat \<times> 'v) list"

datatype 'v deltas = Dense "'v list" | Sparse "(nat \<times> 'v) list"

record 'v MorphTarget =
  mname :: string
  mdeltas :: "'v deltas"

record ('v, 'u) Fg3dMesh =
  verts :: "'v list"
  uvs :: "'u list"
  surfaces :: "'v surface list"
  markedVerts :: "(nat \<times> string) list"
  morphs :: "'v MorphTarget list"

text \<open>\<open>struct FgMorphVal { FgString name; float val; }\<close>\<close>

record 'w FgMorphVal =
  name :: string
  val :: 'w

text \<open>The arithmetic on positions, deltas and weights (\<open>FgVect3F\<close> and \<open>float\<close> in the
  header) is a parameter, so nothing below depends on how floating point rounds.\<close>

record ('w, 'v) arith =
  vzero :: 'v
  vadd :: "'v \<Rightarrow> 'v \<Rightarrow> 'v"
  vscale :: "'w \<Rightarrow> 'v \<Rightarrow> 'v"

text \<open>Modelled from the spec: the failures of the specification's section 7, count
  mismatches and dangling indices.\<close>

datatype mesh_error = VertexCountMismatch | DeltaCountMismatch | DanglingIndex nat

text \<open>
  Modelled from the spec: the body of \<open>fgMergeMeshSurfaces\<close> is not in the header. The
  specification: "requires |vertices(m0)| == |vertices(m1)|, else fails with a
  vertex-count-mismatch error; result keeps m0's vertex and UV lists; m1's facets are
  appended as-is; surfaces from both are concatenated".
\<close>

definition fgMergeMeshSurfaces ::
  "('v, 'u) Fg3dMesh \<Rightarrow> ('v, 'u) Fg3dMesh \<Rightarrow> mesh_error + ('v, 'u) Fg3dMesh" where
  "fgMergeMeshSurfaces m0 m1 =
     (if length (verts m0) \<noteq> length (verts m1) then Inl VertexCountMismatch
      else Inr (m0\<lparr>surfaces := surfaces m0 @ surfaces m1\<rparr>))"

text \<open>
  Modelled from the spec: lookup of a morph target by name, "first match wins".
\<close>

definition findMorph :: "'v MorphTarget list \<Rightarrow> string \<Rightarrow> 'v MorphTarget option" where
  "findMorph ms n = find (\<lambda>m. mname m = n) ms"

text \<open>
  Modelled from the spec: one matched morph adds \<open>weight \<times> delta\<close> to the accumulated
  deltas, "dense form: index-aligned; sparse form: only listed indices contribute". A
  dense list of another length than the vertex list and a sparse index outside the vertex
  list are the structurally invalid inputs of section 7.
\<close>

fun addSparse ::
  "('w, 'v) arith \<Rightarrow> 'w \<Rightarrow> (nat \<times> 'v) list \<Rightarrow> 'v list \<Rightarrow> mesh_error + 'v list" where
  "addSparse A w [] acc = Inr acc"
| "addSparse A w ((i, d) # ps) acc =
     (if i < length acc then addSparse A w ps (acc[i := vadd A (acc ! i) (vscale A w d)])
      else Inl (DanglingIndex i))"

text \<open>Modelled from the spec: the two forms of a morph target, as above.\<close>

definition addMorph ::
  "('w, 'v) arith \<Rightarrow> 'w \<Rightarrow> 'v MorphTarget \<Rightarrow> 'v list \<Rightarrow> mesh_error + 'v list" where
  "addMorph A w m acc =
     (case mdeltas m of
        Dense ds \<Rightarrow>
          if length ds = length acc
          then Inr (map (\<lambda>(a, d). vadd A a (vscale A w d)) (zip acc ds))
          else Inl DeltaCountMismatch
      | Sparse ps \<Rightarrow> addSparse A w ps acc)"

text \<open>
  Modelled from the spec: "for each entry, look up the named MorphTarget (first match;
  silently skip if absent); accumulate weight \<times> delta per vertex across all matched
  morphs".
\<close>

fun accumulate ::
  "('w, 'v) arith \<Rightarrow> 'v MorphTarget list \<Rightarrow> 'w FgMorphVal list \<Rightarrow> 'v list \<Rightarrow>
   mesh_error + 'v list" where
  "accumulate A ms [] acc = Inr acc"
| "accumulate A ms (e # es) acc =
     (case findMorph ms (name e) of
        None \<Rightarrow> accumulate A ms es acc
      | Some m \<Rightarrow>
          (case addMorph A (val e) m acc of
             Inl err \<Rightarrow> Inl err
           | Inr acc' \<Rightarrow> accumulate A ms es acc'))"

text \<open>
  Modelled from the spec: \<open>fgApplyExpression(mesh, expression)\<close>, whose body is not in the
  header: "new vertex-position list = base vertices + accumulated deltas; base mesh is
  unmodified". The mesh is a \<open>const &\<close> parameter and the result a new \<open>FgVerts\<close>.
\<close>

definition fgApplyExpression ::
  "('w, 'v) arith \<Rightarrow> ('v, 'u) Fg3dMesh \<Rightarrow> 'w FgMorphVal list \<Rightarrow> mesh_error + 'v list" where
  "fgApplyExpression A mesh expression =
     (case accumulate A (morphs mesh) expression (replicate (length (verts mesh)) (vzero A)) of
        Inl err \<Rightarrow> Inl err
      | Inr acc \<Rightarrow> Inr (map (\<lambda>(v, a). vadd A v a) (zip (verts mesh) acc)))"

text \<open>Modelled from the spec: an entry of an expression is supported by a mesh when its
  name is the name of one of the mesh's morph targets ("Only applies those morphs which
  mesh supports, ignores the rest", the header says).\<close>

definition supported :: "('v, 'u) Fg3dMesh \<Rightarrow> 'w FgMorphVal \<Rightarrow> bool" where
  "supported mesh e = (findMorph (morphs mesh) (name e) \<noteq> None)"

text \<open>
  Concrete inputs: integer arithmetic on triples, a mesh with a dense and a sparse morph
  target, a second mesh with as many vertices, and a third with fewer.
\<close>

definition int3 :: "(int, int \<times> int \<times> int) arith" where
  "int3 =
     \<lparr>vzero = (0, 0, 0),
      vadd = (\<lambda>(a, b, c) (d, e, f). (a + d, b + e, c + f)),
      vscale = (\<lambda>w (a, b, c). (w * a, w * b, w * c))\<rparr>"

definition face :: "(int \<times> int \<times> int, int \<times> int) Fg3dMesh" where
  "face =
     \<lparr>verts = [(0, 0, 0), (10, 0, 0), (0, 10, 0)],
      uvs = [(0, 0), (1, 0), (0, 1)],
      surfaces = [\<lparr>sname = ''skin'',
                   facets = [\<lparr>vertInds = [0, 1, 2], uvInds = Some [0, 1, 2]\<rparr>],
                   surfPoints = []\<rparr>],
      markedVerts = [(0, ''nose'')],
      morphs = [\<lparr>mname = ''smile'', mdeltas = Dense [(1, 0, 0), (0, 1, 0), (0, 0, 1)]\<rparr>,
                \<lparr>mname = ''blink'', mdeltas = Sparse [(2, (0, 0, 5))]\<rparr>]\<rparr>"

definition teeth :: "(int \<times> int \<times> int, int \<times> int) Fg3dMesh" where
  "teeth =
     \<lparr>verts = [(1, 1, 1), (2, 2, 2), (3, 3, 3)],
      uvs = [(5, 5)],
      surfaces = [\<lparr>sname = ''teeth'',
                   facets = [\<lparr>vertInds = [2, 1, 0], uvInds = None\<rparr>],
                   surfPoints = []\<rparr>],
      markedVerts = [],
      morphs = []\<rparr>"

definition eye :: "(int \<times> int \<times> int, int \<times> int) Fg3dMesh" where
  "eye = teeth\<lparr>verts := [(1, 1, 1)]\<rparr>"

section \<open>Properties of FgVariant\<close>

lemmas variant_defs = getCRef_def getRef_def isType_def dynamic_cast_Poly_def held_def typeName_def

lemma getCRef_by_held:
  "getCRef T var h =
     (case held var h of
        None \<Rightarrow> Inl (FgException ''Variant NULL dereferenced as'' [T])
      | Some p \<Rightarrow> if typeid p = T then Inr (m_data p)
                  else Inl (FgException ''Variant incompatible type dereference from/to''
                              [typeid p, T]))"
  by (simp add: variant_defs split: option.split)

lemma getCRef_held:
  "held a h = held b h' \<Longrightarrow> getCRef T a h = getCRef T b h'"
  by (simp only: getCRef_by_held)

lemma isType_by_held:
  "isType T var h = (case held var h of None \<Rightarrow> False | Some p \<Rightarrow> typeid p = T)"
  by (simp add: variant_defs split: option.split)






text \<open>
  C9: \<open>FgVariant\<close> recovers the stored type safely. For every requested type \<open>T\<close>,
  \<open>getCRef<T>()\<close> throws the null-dereference diagnostic when the variant is empty,
  throws the incompatible-type diagnostic (naming the stored and the requested type) when
  the variant holds a value of another type \<open>S\<close>, and returns the stored value exactly
  when the variant holds a value of type \<open>T\<close>; \<open>isType<T>()\<close> is true exactly when the
  variant holds a value of type \<open>T\<close>. The reference \<open>getRef<T>()\<close> hands out for
  writing is to an object of type \<open>T\<close> as well: no access goes past the checked cast.
\<close>

theorem FgVariant_safe_type_recovery:
  "(held var h = None \<longrightarrow>
      getCRef T var h = Inl (FgException ''Variant NULL dereferenced as'' [T]))
   \<and> (\<forall>S x. held var h = Some (Poly S x) \<and> S \<noteq> T \<longrightarrow>
        getCRef T var h =
          Inl (FgException ''Variant incompatible type dereference from/to'' [S, T]))
   \<and> (\<forall>x. held var h = Some (Poly T x) \<longrightarrow> getCRef T var h = Inr x)
   \<and> (\<forall>x. getCRef T var h = Inr x \<longrightarrow> held var h = Some (Poly T x))
   \<and> (\<forall>a. getRef T var h = Inr a \<longrightarrow> m_poly var = Some a \<and> typeid (obj h a) = T)
   \<and> (isType T var h \<longleftrightarrow> (\<exists>x. held var h = Some (Poly T x)))"
proof -
  have r: "\<forall>a. getRef T var h = Inr a \<longrightarrow> m_poly var = Some a \<and> typeid (obj h a) = T"
    by (simp add: getRef_def dynamic_cast_Poly_def split: option.split)
  show ?thesis
  proof (cases "held var h")
    case None
    with r show ?thesis by (simp add: getCRef_by_held isType_by_held)
  next
    case (Some p)
    with r show ?thesis by (cases p) (auto simp add: getCRef_by_held isType_by_held)
  qed
qed

theorem FgVariant_safe_type_recovery_witness:
  "getCRef ''int'' FgVariant_default \<lparr>obj = (\<lambda>_. Poly ''void'' (0::nat)), nxt = 0\<rparr>
     = Inl (FgException ''Variant NULL dereferenced as'' [''int''])
   \<and> (case FgVariant_val ''int'' (5::nat) \<lparr>obj = (\<lambda>_. Poly ''void'' 0), nxt = 0\<rparr> of
        (var, h) \<Rightarrow>
          held var h = Some (Poly ''int'' 5)
          \<and> getCRef ''int'' var h = Inr 5
          \<and> getCRef ''float'' var h =
              Inl (FgException ''Variant incompatible type dereference from/to''
                     [''int'', ''float''])
          \<and> isType ''int'' var h \<and> \<not> isType ''float'' var h)"
  using FgVariant_safe_type_recovery
          [of FgVariant_default "\<lparr>obj = (\<lambda>_. Poly ''void'' (0::nat)), nxt = 0\<rparr>" "''int''"]
        FgVariant_safe_type_recovery
          [of "\<lparr>m_poly = Some 0\<rparr>"
              "\<lparr>obj = (\<lambda>_. Poly ''void'' (0::nat))(0 := Poly ''int'' 5), nxt = Suc 0\<rparr>" "''int''"]
        FgVariant_safe_type_recovery
          [of "\<lparr>m_poly = Some 0\<rparr>"
              "\<lparr>obj = (\<lambda>_. Poly ''void'' (0::nat))(0 := Poly ''int'' 5), nxt = Suc 0\<rparr>" "''float''"]
  by (simp add: FgVariant_val_def new_def FgVariant_default_def held_def)



section \<open>Properties of the file and directory dialogs\<close>

lemma thn_emit [simp]: "thn (emit ev) k t = k (t @ [ev])"
  by (simp add: thn_def bnd_def emit_def)

lemma thn_ret [simp]: "thn (ret ()) k = k"
  by (simp add: thn_def bnd_def ret_def)

lemma thn_throw [simp]: "thn (throw e) k t = (Inl e, t)"
  by (simp add: thn_def bnd_def throw_def)

lemma bnd_ret [simp]: "bnd (ret x) f = f x"
  by (simp add: bnd_def ret_def)

lemma bnd_throw [simp]: "bnd (throw e) f t = (Inl e, t)"
  by (simp add: bnd_def throw_def)

lemma bnd_thn [simp]: "bnd (thn m k) f = thn m (bnd k f)"
  by (auto simp add: thn_def bnd_def split: prod.splits sum.splits)

lemma ret_apply [simp]: "ret x t = (Inr x, t)"
  by (simp add: ret_def)

lemma throw_apply [simp]: "throw e t = (Inl e, t)"
  by (simp add: throw_def)

lemma thn_FGASSERT [simp]:
  "thn (FGASSERT l c) k t = (if c then k t else (Inl (FgAssert l), t))"
  by (simp add: FGASSERT_def)

lemma thn_FGASSERTWIN [simp]:
  "thn (FGASSERTWIN l c) k t = (if c then k t else (Inl (FgAssertWin l), t))"
  by (simp add: FGASSERTWIN_def)

lemma thn_acquire [simp]:
  "thn (acquire ev hr h) k t =
     (if SUCCEEDED hr then k (t @ [ev, Acquired h]) else k (t @ [ev]))"
  by (simp add: acquire_def thn_def bnd_def emit_def ret_def)

lemma FgScopeGuard_apply:
  "FgScopeGuard ev body t = (fst (body t), snd (body t) @ [ev])"
  by (simp add: FgScopeGuard_def split: prod.splits)

lemma fetch_Load_result:
  "fst (fetch_Load os t) =
     Inr (if SUCCEEDED (hr_Show os) \<and> SUCCEEDED (hr_GetResult os) \<and>
             SUCCEEDED (hr_GetDisplayName os) then pszFilePath os else None)"
  by (simp add: fetch_Load_def)

lemma fetch_Save_result:
  "fst (fetch_Save os t) =
     (if SUCCEEDED (hr_Show os) \<and> SUCCEEDED (hr_GetResult os) \<and>
         SUCCEEDED (hr_GetDisplayName os)
      then (case pszFilePath os of None \<Rightarrow> Inl (NullString 146) | Some p \<Rightarrow> Inr (Some p))
      else Inr None)"
  by (simp add: fetch_Save_def split: option.split)

lemma Load_result:
  "fst (fgGuiDialogFileLoad os description extensions t) =
     (if extensions = [] then Inl (FgAssert 42)
      else if \<not> SUCCEEDED (hr_CoCreateInstance os) then Inl (FgAssertWin 47)
      else if \<not> SUCCEEDED (hr_SetClientGuid os) then Inl (FgAssertWin 59)
      else if \<not> SUCCEEDED (hr_GetOptions os) then Inl (FgAssertWin 63)
      else if \<not> SUCCEEDED (hr_SetOptions os) then Inl (FgAssertWin 66)
      else if \<not> SUCCEEDED (hr_SetFileTypes os) then Inl (FgAssertWin 75)
      else if \<not> SUCCEEDED (hr_SetFileTypeIndex os) then Inl (FgAssertWin 78)
      else Inr (if SUCCEEDED (hr_Show os) \<and> SUCCEEDED (hr_GetResult os) \<and>
                   SUCCEEDED (hr_GetDisplayName os) then pszFilePath os else None))"
  by (simp add: fgGuiDialogFileLoad_def FgScopeGuard_apply fetch_Load_result)

lemma Save_result:
  "fst (fgGuiDialogFileSave os description extension t) =
     (if extension = [] then Inl (FgAssert 101)
      else if \<not> SUCCEEDED (hr_CoCreateInstance os) then Inl (FgAssertWin 106)
      else if \<not> SUCCEEDED (hr_SetClientGuid os) then Inl (FgAssertWin 118)
      else if \<not> SUCCEEDED (hr_GetOptions os) then Inl (FgAssertWin 122)
      else if \<not> SUCCEEDED (hr_SetOptions os) then Inl (FgAssertWin 125)
      else if \<not> SUCCEEDED (hr_SetFileTypes os) then Inl (FgAssertWin 132)
      else if \<not> SUCCEEDED (hr_SetFileTypeIndex os) then Inl (FgAssertWin 135)
      else if SUCCEEDED (hr_Show os) \<and> SUCCEEDED (hr_GetResult os) \<and>
              SUCCEEDED (hr_GetDisplayName os)
      then (case pszFilePath os of None \<Rightarrow> Inl (NullString 146) | Some p \<Rightarrow> Inr (Some p))
      else Inr None)"
  by (simp add: fgGuiDialogFileSave_def FgScopeGuard_apply fetch_Save_result)

lemma snd_fetch_Load: "\<exists>evs. snd (fetch_Load os t) = t @ Call_Show # evs"
  by (simp add: fetch_Load_def)

lemma snd_fetch_Save: "\<exists>evs. snd (fetch_Save os t) = t @ Call_Show # evs"
  by (simp add: fetch_Save_def split: option.split)

lemma Load_shows:
  assumes "extensions \<noteq> []" "SUCCEEDED (hr_CoCreateInstance os)"
    "SUCCEEDED (hr_SetClientGuid os)" "SUCCEEDED (hr_GetOptions os)"
    "SUCCEEDED (hr_SetOptions os)" "SUCCEEDED (hr_SetFileTypes os)"
    "SUCCEEDED (hr_SetFileTypeIndex os)"
  shows "Call_Show \<in> set (snd (fgGuiDialogFileLoad os description extensions t))"
proof -
  let ?t = "t @ [Call_CoCreateInstance, Acquired IFileDialog, Call_SetClientGuid,
                 Call_GetOptions, Call_SetOptions (dwFlags os OR FOS_FORCEFILESYSTEM),
                 Call_SetFileTypes description (exts_spec extensions), Call_SetFileTypeIndex 1]"
  from snd_fetch_Load [of os ?t] obtain evs
    where "snd (fetch_Load os ?t) = ?t @ Call_Show # evs" by blast
  with assms show ?thesis
    by (simp add: fgGuiDialogFileLoad_def FgScopeGuard_apply)
qed

lemma Save_shows:
  assumes "extension \<noteq> []" "SUCCEEDED (hr_CoCreateInstance os)"
    "SUCCEEDED (hr_SetClientGuid os)" "SUCCEEDED (hr_GetOptions os)"
    "SUCCEEDED (hr_SetOptions os)" "SUCCEEDED (hr_SetFileTypes os)"
    "SUCCEEDED (hr_SetFileTypeIndex os)"
  shows "Call_Show \<in> set (snd (fgGuiDialogFileSave os description extension t))"
proof -
  let ?t = "t @ [Call_CoCreateInstance, Acquired IFileDialog, Call_SetClientGuid,
                 Call_GetOptions, Call_SetOptions (dwFlags os OR FOS_FORCEFILESYSTEM),
                 Call_SetFileTypes description (''*.'' @ extension), Call_SetFileTypeIndex 1,
                 Call_SetDefaultExtension extension]"
  from snd_fetch_Save [of os ?t] obtain evs
    where "snd (fetch_Save os ?t) = ?t @ Call_Show # evs" by blast
  with assms show ?thesis
    by (simp add: fgGuiDialogFileSave_def FgScopeGuard_apply)
qed

lemma SUCCEEDED_0 [simp]: "SUCCEEDED 0"
  by (simp add: SUCCEEDED_def)

lemma not_SUCCEEDED_cancelled [simp]: "\<not> SUCCEEDED 0x800704C7"
  by (simp add: SUCCEEDED_def)

text \<open>
  C4: the file-choose and file-save dialogs return an optional path. When the dialog has
  been set up (no assertion fails), \<open>fgGuiDialogFileLoad\<close> and \<open>fgGuiDialogFileSave\<close>
  return no value when the user cancels and the selected path when the user confirms a
  selection; \<open>fgGuiDialogFileLoad\<close> returns an optional value in every other case too.
  The calls are made one after the other, \<open>Show\<close> among them, before the function
  returns.
\<close>

theorem file_dialogs_return_optional_path:
  assumes "setup_ok os" and "extensions \<noteq> []" and "extension \<noteq> []"
  shows "(user_cancels os \<longrightarrow>
            fst (fgGuiDialogFileLoad os description extensions t) = Inr None
          \<and> fst (fgGuiDialogFileSave os description extension t) = Inr None)
       \<and> (user_confirms os path \<longrightarrow>
            fst (fgGuiDialogFileLoad os description extensions t) = Inr (Some path)
          \<and> fst (fgGuiDialogFileSave os description extension t) = Inr (Some path))
       \<and> (\<exists>r. fst (fgGuiDialogFileLoad os description extensions t) = Inr r)
       \<and> Call_Show \<in> set (snd (fgGuiDialogFileLoad os description extensions t))
       \<and> Call_Show \<in> set (snd (fgGuiDialogFileSave os description extension t))"
proof -
  from assms have "Call_Show \<in> set (snd (fgGuiDialogFileLoad os description extensions t))"
    by (simp add: Load_shows setup_ok_def)
  moreover
  from assms have "Call_Show \<in> set (snd (fgGuiDialogFileSave os description extension t))"
    by (simp add: Save_shows setup_ok_def)
  ultimately show ?thesis
    using assms
    by (simp add: Load_result Save_result setup_ok_def user_cancels_def user_confirms_def)
qed

theorem file_dialogs_return_optional_path_witness:
  "setup_ok os_cancel \<and> user_cancels os_cancel
   \<and> fst (fgGuiDialogFileLoad os_cancel ''Image'' [''png'', ''jpg''] []) = Inr None
   \<and> fst (fgGuiDialogFileSave os_cancel ''Image'' ''png'' []) = Inr None
   \<and> setup_ok os_confirm \<and> user_confirms os_confirm ''C:/faces/a.png''
   \<and> fst (fgGuiDialogFileLoad os_confirm ''Image'' [''png'', ''jpg''] [])
        = Inr (Some ''C:/faces/a.png'')
   \<and> fst (fgGuiDialogFileSave os_confirm ''Image'' ''png'' [])
        = Inr (Some ''C:/faces/a.png'')"
proof -
  have c: "setup_ok os_cancel" and k: "setup_ok os_confirm"
    by (simp_all add: setup_ok_def os_cancel_def os_confirm_def)
  have uc: "user_cancels os_cancel"
    by (simp add: user_cancels_def os_cancel_def)
  have uk: "user_confirms os_confirm ''C:/faces/a.png''"
    by (simp add: user_confirms_def os_confirm_def)
  have e: "[''png'', ''jpg''] \<noteq> []" "''png'' \<noteq> []" by simp_all
  from file_dialogs_return_optional_path
         [OF c e, where description = "''Image''" and t = "[]"]
       file_dialogs_return_optional_path
         [OF k e, where description = "''Image''" and t = "[]" and path = "''C:/faces/a.png''"]
       c k uc uk
  show ?thesis by blast
qed

text \<open>
  C5: an empty extension list (\<open>fgGuiDialogFileLoad\<close>) and an empty extension
  (\<open>fgGuiDialogFileSave\<close>) fail the assertion on the first line of the function: the
  result is the assertion's exception and no call has been made, so no dialog has been
  created or shown and nothing is retried. With a non-empty extension input no
  \<open>FGASSERT\<close> fails.
\<close>

theorem empty_extensions_fail_fast:
  "fgGuiDialogFileLoad os description [] t = (Inl (FgAssert 42), t)
   \<and> fgGuiDialogFileSave os description [] t = (Inl (FgAssert 101), t)
   \<and> (extensions \<noteq> [] \<longrightarrow>
        (\<forall>n. fst (fgGuiDialogFileLoad os description extensions t) \<noteq> Inl (FgAssert n)))
   \<and> (extension \<noteq> [] \<longrightarrow>
        (\<forall>n. fst (fgGuiDialogFileSave os description extension t) \<noteq> Inl (FgAssert n)))"
proof (intro conjI impI allI)
  show "fgGuiDialogFileLoad os description [] t = (Inl (FgAssert 42), t)"
    by (simp add: fgGuiDialogFileLoad_def)
  show "fgGuiDialogFileSave os description [] t = (Inl (FgAssert 101), t)"
    by (simp add: fgGuiDialogFileSave_def)
next
  fix n assume "extensions \<noteq> []"
  then show "fst (fgGuiDialogFileLoad os description extensions t) \<noteq> Inl (FgAssert n)"
    by (simp add: Load_result)
next
  fix n assume "extension \<noteq> []"
  then show "fst (fgGuiDialogFileSave os description extension t) \<noteq> Inl (FgAssert n)"
    by (simp add: Save_result split: option.split)
qed

theorem empty_extensions_fail_fast_witness:
  "fgGuiDialogFileLoad os_confirm ''Image'' [] [] = (Inl (FgAssert 42), [])
   \<and> fgGuiDialogFileSave os_confirm ''Image'' [] [] = (Inl (FgAssert 101), [])
   \<and> fst (fgGuiDialogFileLoad os_confirm ''Image'' [''png''] []) \<noteq> Inl (FgAssert 42)
   \<and> fst (fgGuiDialogFileSave os_confirm ''Image'' ''png'' []) \<noteq> Inl (FgAssert 101)"
  using empty_extensions_fail_fast
          [where os = os_confirm and description = "''Image''" and t = "[]"
             and extensions = "[''png'']" and extension = "''png''"]
  by simp

lemma Load_releases_all:
  "leaked (snd (fgGuiDialogFileLoad os description extensions [])) = []"
  by (simp add: fgGuiDialogFileLoad_def FgScopeGuard_def fetch_Load_def leaked_def)

lemma Save_releases_all:
  "SUCCEEDED (hr_GetDisplayName os) \<longrightarrow> pszFilePath os \<noteq> None \<Longrightarrow>
     leaked (snd (fgGuiDialogFileSave os description extension [])) = []"
  by (auto simp add: fgGuiDialogFileSave_def FgScopeGuard_def fetch_Save_def leaked_def)

lemma DirSelect_releases_IFileDialog:
  "IFileDialog \<notin> set (leaked (snd (fgGuiDialogDirSelect f os [])))"
  by (simp add: fgGuiDialogDirSelect_def FgScopeGuard_def fetch_Dir_def leaked_def
           split: option.split)

text \<open>
  C8: release of native handles. When every call succeeds and the user selects a
  directory, \<open>fgGuiDialogDirSelect\<close> returns from inside the innermost branch: the
  \<open>IFileDialog\<close> is released by the scope guard, \<open>psiResult->Release()\<close> is never
  reached and the \<open>IShellItem\<close> stays owned. On the same answers
  \<open>fgGuiDialogFileLoad\<close> and \<open>fgGuiDialogFileSave\<close> release everything they acquired.
\<close>

theorem fgGuiDialogDirSelect_leaks_IShellItem:
  "fgGuiDialogDirSelect (\<lambda>p. p @ ''/'') os_confirm [] =
     (Inr (Some ''C:/faces/a.png/''),
      [Call_CoCreateInstance, Acquired IFileDialog, Call_GetOptions, Call_SetOptions 0x60,
       Call_Show, Call_GetResult, Acquired IShellItem, Call_GetDisplayName,
       Call_CoTaskMemFree, Released IFileDialog])
   \<and> leaked (snd (fgGuiDialogDirSelect (\<lambda>p. p @ ''/'') os_confirm [])) = [IShellItem]
   \<and> leaked (snd (fgGuiDialogFileLoad os_confirm ''Image'' [''png''] [])) = []
   \<and> leaked (snd (fgGuiDialogFileSave os_confirm ''Image'' ''png'' [])) = []"
  by (simp add: fgGuiDialogDirSelect_def fgGuiDialogFileLoad_def fgGuiDialogFileSave_def
        FgScopeGuard_def fetch_Dir_def fetch_Load_def fetch_Save_def leaked_def os_confirm_def
        FOS_FORCEFILESYSTEM_def FOS_PICKFOLDERS_def)

section \<open>Properties of the progress dialog\<close>

lemma bnd_bnd [simp]: "bnd (bnd m f) g = bnd m (\<lambda>x. bnd (f x) g)"
  by (auto simp add: bnd_def split: prod.splits sum.splits)

lemma thn_SendMessage [simp]:
  "thn (SendMessage h m) k s = k (s\<lparr>sent := sent s @ [(h, m)]\<rparr>)"
  by (simp add: thn_def bnd_def SendMessage_def)

lemma thn_set_cancel [simp]:
  "thn (set_cancel b) k s = k (s\<lparr>s_cancel := b\<rparr>)"
  by (simp add: thn_def bnd_def set_cancel_def)

lemma thn_DestroyWindow [simp]:
  "thn (DestroyWindow h) k s = k (s\<lparr>dlg := (dlg s)(h := None)\<rparr>)"
  by (simp add: thn_def bnd_def DestroyWindow_def)

lemma bnd_CreateWindowEx [simp]:
  "bnd CreateWindowEx f s =
     (case fresh s of [] \<Rightarrow> f 0 s | h # hs \<Rightarrow> f h (s\<lparr>fresh := hs\<rparr>))"
  by (simp add: bnd_def CreateWindowEx_def split: list.split)

lemma steps_simps [simp]:
  "steps h (s\<lparr>s_cancel := b\<rparr>) = steps h s"
  "steps h (s\<lparr>queue := q\<rparr>) = steps h s"
  "steps h (s\<lparr>dlg := g\<rparr>) = steps h s"
  "steps h (s\<lparr>fresh := f\<rparr>) = steps h s"
  "steps h (s\<lparr>sent := sent s @ [(h', m)]\<rparr>) =
     (if h' = h \<and> m = PBM_STEPIT then Suc (steps h s) else steps h s)"
  by (auto simp add: steps_def)

lemma DispatchMessage_well_formed:
  "well_formed_msg m \<Longrightarrow>
     DispatchMessage m s = (Inr (), if clicks s m then s\<lparr>s_cancel := True\<rparr> else s)"
  by (cases "dlg s (hwnd m)")
     (auto simp add: DispatchMessage_def wndProc_def well_formed_msg_def clicks_def
        map_upd_triv split: if_splits)

lemma DispatchMessage_queue:
  "queue (snd (DispatchMessage m s)) = queue s"
  by (cases "dlg s (hwnd m)")
     (auto simp add: DispatchMessage_def wndProc_def split: list.split)

lemma DispatchMessage_steps:
  "steps pb (snd (DispatchMessage m s)) = steps pb s"
  by (cases "dlg s (hwnd m)")
     (auto simp add: DispatchMessage_def wndProc_def steps_def split: list.split)

lemma pump_steps: "steps pb (snd (pump ms s)) = steps pb s"
proof (induction ms arbitrary: s)
  case Nil
  show ?case by simp
next
  case (Cons m ms)
  obtain r s2 where d: "DispatchMessage m (s\<lparr>queue := ms\<rparr>) = (r, s2)"
    by (cases "DispatchMessage m (s\<lparr>queue := ms\<rparr>)")
  from DispatchMessage_steps [of pb m "s\<lparr>queue := ms\<rparr>"] d
  have "steps pb s2 = steps pb s" by simp
  with d Cons.IH [of s2] show ?case
    by (cases r) (simp_all add: Let_def)
qed

lemma pump_result:
  "fst (pump ms s) = Inr b \<Longrightarrow> b = (\<exists>m\<in>set ms. is_quit m)"
proof (induction ms arbitrary: s)
  case Nil
  then show ?case by simp
next
  case (Cons m ms)
  obtain r s2 where d: "DispatchMessage m (s\<lparr>queue := ms\<rparr>) = (r, s2)"
    by (cases "DispatchMessage m (s\<lparr>queue := ms\<rparr>)")
  show ?case
  proof (cases "message m = WM_QUIT")
    case True
    with Cons.prems show ?thesis by (simp add: Let_def is_quit_def)
  next
    case False
    with Cons.prems d have "fst (pump ms s2) = Inr b"
      by (cases r) (simp_all add: Let_def)
    from Cons.IH [OF this] False show ?thesis by (simp add: is_quit_def)
  qed
qed

lemma pump_well_formed:
  "\<forall>m\<in>set ms. well_formed_msg m \<Longrightarrow>
     fst (pump ms s) = Inr (\<exists>m\<in>set ms. is_quit m)"
proof (induction ms arbitrary: s)
  case Nil
  then show ?case by simp
next
  case (Cons m ms)
  from Cons.prems have w: "well_formed_msg m" and r: "\<forall>m\<in>set ms. well_formed_msg m"
    by simp_all
  show ?case
    using Cons.IH [OF r] DispatchMessage_well_formed [OF w]
    by (simp add: Let_def is_quit_def)
qed

lemma pump_well_formed_cancel:
  "\<forall>m\<in>set ms. well_formed_msg m \<Longrightarrow> \<forall>m\<in>set ms. \<not> is_quit m \<Longrightarrow>
     dlg (snd (pump ms s)) = dlg s
     \<and> s_cancel (snd (pump ms s)) = (s_cancel s \<or> (\<exists>m\<in>set ms. clicks s m))"
proof (induction ms arbitrary: s)
  case Nil
  show ?case by simp
next
  case (Cons m ms)
  from Cons.prems have w: "well_formed_msg m" and r: "\<forall>m\<in>set ms. well_formed_msg m"
    and q: "message m \<noteq> WM_QUIT" and rq: "\<forall>m\<in>set ms. \<not> is_quit m"
    by (simp_all add: is_quit_def)
  let ?s1 = "s\<lparr>queue := ms\<rparr>"
  let ?s2 = "if clicks ?s1 m then ?s1\<lparr>s_cancel := True\<rparr> else ?s1"
  have c: "clicks ?s2 = clicks s" by (rule ext) (simp add: clicks_def)
  have p: "pump (m # ms) s = pump ms ?s2"
    using q DispatchMessage_well_formed [OF w, of ?s1] by (simp add: Let_def)
  from Cons.IH [OF r rq, of ?s2] c
  have "dlg (snd (pump ms ?s2)) = dlg s"
    and "s_cancel (snd (pump ms ?s2)) = (s_cancel ?s2 \<or> (\<exists>m\<in>set ms. clicks s m))"
    by (simp_all split: if_splits)
  moreover have "s_cancel ?s2 = (s_cancel s \<or> clicks s m)"
    by (auto simp add: clicks_def)
  ultimately show ?case unfolding p by auto
qed

lemma DispatchMessage_cancel:
  "((dlg (snd (DispatchMessage m s)) x \<noteq> None) = (dlg s x \<noteq> None))
   \<and> (s_cancel (snd (DispatchMessage m s)) \<longrightarrow> s_cancel s \<or> clicks s m)"
  by (cases "dlg s (hwnd m)")
     (auto simp add: DispatchMessage_def wndProc_def clicks_def split: list.split if_splits)

lemma pump_cancel_only_by_click:
  "((dlg (snd (pump ms s)) x \<noteq> None) = (dlg s x \<noteq> None))
   \<and> (s_cancel (snd (pump ms s)) \<longrightarrow> s_cancel s \<or> (\<exists>m\<in>set (handled ms). clicks s m))"
proof (induction ms arbitrary: s x)
  case Nil
  show ?case by simp
next
  case (Cons m ms)
  let ?s1 = "s\<lparr>queue := ms\<rparr>"
  show ?case
  proof (cases "message m = WM_QUIT")
    case True
    then show ?thesis by (simp add: Let_def handled_def is_quit_def)
  next
    case False
    obtain r s2 where d: "DispatchMessage m ?s1 = (r, s2)"
      by (cases "DispatchMessage m ?s1")
    from DispatchMessage_cancel [of m ?s1] d
    have g: "\<And>x. (dlg s2 x \<noteq> None) = (dlg s x \<noteq> None)"
      and c: "s_cancel s2 \<longrightarrow> s_cancel s \<or> clicks s m"
      by (simp_all add: clicks_def)
    have k: "\<And>m'. clicks s2 m' = clicks s m'"
      using g by (simp add: clicks_def)
    have h: "handled (m # ms) = m # handled ms"
      using False by (simp add: handled_def is_quit_def)
    show ?thesis
    proof (cases r)
      case (Inl e)
      with False d have "pump (m # ms) s = (Inl e, s2)" by (simp add: Let_def)
      with g c h show ?thesis by auto
    next
      case (Inr u)
      with False d have p: "pump (m # ms) s = pump ms s2" by (simp add: Let_def)
      from Cons.IH [of s2] g c k h show ?thesis unfolding p by auto
    qed
  qed
qed

lemma pump_cancel_general:
  "\<forall>m\<in>set ms. well_formed_msg m \<Longrightarrow>
     s_cancel (snd (pump ms s)) = (s_cancel s \<or> (\<exists>m\<in>set (handled ms). clicks s m))"
proof (induction ms arbitrary: s)
  case Nil
  show ?case by (simp add: handled_def)
next
  case (Cons m ms)
  from Cons.prems have w: "well_formed_msg m" and r: "\<forall>m\<in>set ms. well_formed_msg m"
    by simp_all
  let ?s1 = "s\<lparr>queue := ms\<rparr>"
  let ?s2 = "if clicks ?s1 m then ?s1\<lparr>s_cancel := True\<rparr> else ?s1"
  show ?case
  proof (cases "message m = WM_QUIT")
    case True
    then show ?thesis by (simp add: Let_def handled_def is_quit_def)
  next
    case False
    have c: "clicks ?s2 = clicks s" by (rule ext) (simp add: clicks_def)
    have p: "pump (m # ms) s = pump ms ?s2"
      using False DispatchMessage_well_formed [OF w, of ?s1] by (simp add: Let_def)
    have h: "handled (m # ms) = m # handled ms"
      using False by (simp add: handled_def is_quit_def)
    have "s_cancel ?s2 = (s_cancel s \<or> clicks s m)"
      by (auto simp add: clicks_def)
    with Cons.IH [OF r, of ?s2] c show ?thesis unfolding p h by auto
  qed
qed

lemma fgGuiDialogProgress_runs_work:
  assumes "fgCreateDialog title
             \<lparr>progressSteps = n, hwndThis = 0, hwndPb = 0, hwndButton = 0\<rparr> s = (Inr (h, d), s1)"
  shows "fgGuiDialogProgress fgCreateDialog title n actionProgress s =
           (case actionProgress (progress (hwndPb d)) (s1\<lparr>s_cancel := False\<rparr>) of
              (r, s2) \<Rightarrow> (r, s2\<lparr>dlg := (dlg s2)(h := None)\<rparr>))"
proof -
  obtain r s2 where a: "actionProgress (progress (hwndPb d)) (s1\<lparr>s_cancel := False\<rparr>) = (r, s2)"
    by (cases "actionProgress (progress (hwndPb d)) (s1\<lparr>s_cancel := False\<rparr>)")
  then show ?thesis
    using assms
    by (cases r) (simp_all add: fgGuiDialogProgress_def bnd_def thn_def DestroyWindow_def
                    set_cancel_def throw_def)
qed

text \<open>
  C6: the step-advance callback of the progress dialog. A call that finds the cancel flag
  set returns true at once: it sends no step message and handles no queued message. A
  call that finds the flag clear sends one \<open>PBM_STEPIT\<close> exactly when it is a milestone
  call, then handles the queued messages; if it returns normally it returns true exactly
  when \<open>WM_QUIT\<close> is among them. Nothing but a click on Cancel sets the flag: if the
  flag is set after the call, a click was queued in front of the first \<open>WM_QUIT\<close>;
  \<open>WM_QUIT\<close> itself ends the call and leaves the flag alone. When the queued messages
  are well formed the call does return normally, and the flag is set afterwards exactly
  when a click on Cancel is queued in front of the first \<open>WM_QUIT\<close> (when none is
  \<open>WM_QUIT\<close>: exactly when one of them is a click). \<open>fgGuiDialogProgress\<close> clears the flag,
  runs the caller's work function on \<open>progress\<close> bound to the dialog's progress bar,
  destroys the dialog window and passes on the work function's result or exception.
\<close>

theorem progress_callback_contract:
  "(s_cancel s \<longrightarrow> progress pb milestone s = (Inr True, s))
   \<and> (\<not> s_cancel s \<longrightarrow>
        steps pb (snd (progress pb milestone s)) = steps pb s + (if milestone then 1 else 0)
        \<and> (\<forall>b. fst (progress pb milestone s) = Inr b \<longrightarrow> b = (\<exists>m\<in>set (queue s). is_quit m))
        \<and> (s_cancel (snd (progress pb milestone s)) \<longrightarrow>
              (\<exists>m\<in>set (handled (queue s)). clicks s m))
        \<and> ((\<forall>m\<in>set (queue s). well_formed_msg m) \<longrightarrow>
              fst (progress pb milestone s) = Inr (\<exists>m\<in>set (queue s). is_quit m)
              \<and> s_cancel (snd (progress pb milestone s))
                    = (\<exists>m\<in>set (handled (queue s)). clicks s m)
              \<and> ((\<forall>m\<in>set (queue s). \<not> is_quit m) \<longrightarrow>
                    s_cancel (snd (progress pb milestone s)) = (\<exists>m\<in>set (queue s). clicks s m))))
   \<and> (fgCreateDialog title \<lparr>progressSteps = n, hwndThis = 0, hwndPb = 0, hwndButton = 0\<rparr> s
         = (Inr (h, d), s1) \<longrightarrow>
        fgGuiDialogProgress fgCreateDialog title n actionProgress s =
          (case actionProgress (progress (hwndPb d)) (s1\<lparr>s_cancel := False\<rparr>) of
             (r, s2) \<Rightarrow> (r, s2\<lparr>dlg := (dlg s2)(h := None)\<rparr>)))"
proof (intro conjI impI allI)
  assume "s_cancel s"
  then show "progress pb milestone s = (Inr True, s)" by (simp add: progress_def)
next
  assume n: "\<not> s_cancel s"
  let ?s' = "if milestone then s\<lparr>sent := sent s @ [(pb, PBM_STEPIT)]\<rparr> else s"
  have p: "progress pb milestone s = pump (queue s) ?s'"
    using n by (simp add: progress_def)
  show "steps pb (snd (progress pb milestone s)) = steps pb s + (if milestone then 1 else 0)"
    unfolding p by (simp add: pump_steps)
  {
    fix b assume "fst (progress pb milestone s) = Inr b"
    then show "b = (\<exists>m\<in>set (queue s). is_quit m)"
      unfolding p by (rule pump_result)
  }
  have c: "clicks ?s' = clicks s" by (rule ext) (simp add: clicks_def)
  {
    assume "s_cancel (snd (progress pb milestone s))"
    with pump_cancel_only_by_click [of "queue s" ?s'] n c
    show "\<exists>m\<in>set (handled (queue s)). clicks s m"
      unfolding p by (simp split: if_splits)
  }
  assume w: "\<forall>m\<in>set (queue s). well_formed_msg m"
  show "fst (progress pb milestone s) = Inr (\<exists>m\<in>set (queue s). is_quit m)"
    unfolding p by (rule pump_well_formed [OF w])
  from pump_cancel_general [OF w, of ?s'] n c
  show "s_cancel (snd (progress pb milestone s)) = (\<exists>m\<in>set (handled (queue s)). clicks s m)"
    unfolding p by (simp split: if_splits)
  assume q: "\<forall>m\<in>set (queue s). \<not> is_quit m"
  from pump_well_formed_cancel [OF w q, of ?s'] n c
  show "s_cancel (snd (progress pb milestone s)) = (\<exists>m\<in>set (queue s). clicks s m)"
    unfolding p by (simp split: if_splits)
next
  assume "fgCreateDialog title \<lparr>progressSteps = n, hwndThis = 0, hwndPb = 0, hwndButton = 0\<rparr> s
            = (Inr (h, d), s1)"
  then show "fgGuiDialogProgress fgCreateDialog title n actionProgress s =
          (case actionProgress (progress (hwndPb d)) (s1\<lparr>s_cancel := False\<rparr>) of
             (r, s2) \<Rightarrow> (r, s2\<lparr>dlg := (dlg s2)(h := None)\<rparr>))"
    by (rule fgGuiDialogProgress_runs_work)
qed

lemma LOWORD_0 [simp]: "LOWORD 0 = 0"
  by (simp add: LOWORD_def)

lemma HIWORD_0 [simp]: "HIWORD 0 = 0"
  by (simp add: HIWORD_def)

lemma after_click_eq:
  "progress 7 True gui_click = (Inr False, after_click)
   \<and> after_click = gui_click\<lparr>s_cancel := True, queue := [], sent := [(7, PBM_STEPIT)]\<rparr>"
  by (simp add: after_click_def progress_def gui_click_def dlg_obj_def DispatchMessage_def
        wndProc_def Let_def)

lemma fgCreateDialog_win_run:
  "fgCreateDialog_win ''Working''
     \<lparr>progressSteps = 10, hwndThis = 0, hwndPb = 0, hwndButton = 0\<rparr> gui_start
   = (Inr (5, dlg_obj), gui_created)"
  by (simp add: fgCreateDialog_win_def wndProc_def gui_start_def gui_created_def dlg_obj_def)

text \<open>
  A milestone call does not always advance the bar, and the call during which Cancel is
  clicked does not report it: starting with a click queued, the first milestone call
  returns false, leaves the flag set and the bar at one step; the second milestone call
  returns true and the bar is still at one step.
\<close>

theorem progress_milestone_counterexample:
  "fst (progress 7 True gui_click) = Inr False
   \<and> s_cancel after_click \<and> steps 7 after_click = 1
   \<and> fst (progress 7 True after_click) = Inr True
   \<and> steps 7 (snd (progress 7 True after_click)) = 1"
proof -
  note r = after_click_eq [THEN conjunct1] and e = after_click_eq [THEN conjunct2]
  have c: "s_cancel after_click" and n: "steps 7 after_click = 1"
    unfolding e by (simp_all add: steps_def)
  from c have p: "progress 7 True after_click = (Inr True, after_click)"
    by (simp add: progress_def)
  from c n show ?thesis by (simp add: r p)
qed

theorem progress_callback_contract_witness:
  "\<not> s_cancel gui_click
   \<and> fst (progress 7 True gui_click) = Inr False
   \<and> steps 7 (snd (progress 7 True gui_click)) = steps 7 gui_click + 1
   \<and> s_cancel (snd (progress 7 True gui_click))
   \<and> s_cancel after_click
   \<and> progress 7 True after_click = (Inr True, after_click)
   \<and> fst (progress 7 False gui_quit) = Inr True
   \<and> \<not> s_cancel (snd (progress 7 False gui_quit))
   \<and> fst (progress 7 True gui_quit_click) = Inr True
   \<and> \<not> s_cancel (snd (progress 7 True gui_quit_click))
   \<and> fst (fgGuiDialogProgress fgCreateDialog_win ''Working'' 10 two_milestones gui_start)
        = Inr ()
   \<and> steps 7 (snd (fgGuiDialogProgress fgCreateDialog_win ''Working'' 10 two_milestones
                      gui_start)) = 2"
proof -
  have n: "\<not> s_cancel gui_click" by (simp add: gui_click_def)
  have w: "\<forall>m\<in>set (queue gui_click). well_formed_msg m"
    by (simp add: gui_click_def well_formed_msg_def)
  have q: "\<forall>m\<in>set (queue gui_click). \<not> is_quit m"
    by (simp add: gui_click_def is_quit_def)
  have c: "\<exists>m\<in>set (queue gui_click). clicks gui_click m"
    by (simp add: gui_click_def clicks_def)
  have a: "s_cancel after_click" by (simp add: after_click_eq)
  have r: "two_milestones (progress 7) (gui_created\<lparr>s_cancel := False\<rparr>) =
             (Inr (), gui_created\<lparr>s_cancel := False,
                        sent := sent gui_created @ [(7, PBM_STEPIT), (7, PBM_STEPIT)]\<rparr>)"
    by (simp add: two_milestones_def bnd_def progress_def gui_created_def)
  have h: "hwndPb dlg_obj = 7" by (simp add: dlg_obj_def)
  note t = progress_callback_contract [where s = gui_click and pb = 7 and milestone = True]
  from t n w q have 1: "fst (progress 7 True gui_click) = Inr False"
    by simp
  from t n have st: "steps 7 (snd (progress 7 True gui_click)) = steps 7 gui_click + 1"
    by simp
  from t n w q c have fl: "s_cancel (snd (progress 7 True gui_click))"
    by blast
  from progress_callback_contract [where s = after_click and pb = 7 and milestone = True] a
  have 2: "progress 7 True after_click = (Inr True, after_click)" by simp
  from progress_callback_contract
         [where s = gui_start and fgCreateDialog = fgCreateDialog_win and title = "''Working''"
            and n = 10 and h = 5 and d = dlg_obj and ?s1.0 = gui_created
            and actionProgress = two_milestones]
       fgCreateDialog_win_run
  have 3: "fgGuiDialogProgress fgCreateDialog_win ''Working'' 10 two_milestones gui_start =
             (Inr (), gui_created\<lparr>s_cancel := False,
                        sent := sent gui_created @ [(7, PBM_STEPIT), (7, PBM_STEPIT)],
                        dlg := (dlg gui_created)(5 := None)\<rparr>)"
    by (simp add: h r)
  have nq: "\<not> s_cancel gui_quit" by (simp add: gui_quit_def gui_click_def)
  have wq: "\<forall>m\<in>set (queue gui_quit). well_formed_msg m"
    by (simp add: gui_quit_def well_formed_msg_def)
  have eq: "\<exists>m\<in>set (queue gui_quit). is_quit m"
    by (simp add: gui_quit_def is_quit_def)
  from progress_callback_contract [where s = gui_quit and pb = 7 and milestone = False]
       nq wq eq
  have 4: "fst (progress 7 False gui_quit) = Inr True" by simp
  have hq: "handled (queue gui_quit) = []"
    by (simp add: gui_quit_def handled_def is_quit_def)
  from progress_callback_contract [where s = gui_quit and pb = 7 and milestone = False]
       nq wq hq
  have 5: "\<not> s_cancel (snd (progress 7 False gui_quit))" by simp
  have nc: "\<not> s_cancel gui_quit_click" by (simp add: gui_quit_click_def gui_click_def)
  have wc: "\<forall>m\<in>set (queue gui_quit_click). well_formed_msg m"
    by (simp add: gui_quit_click_def well_formed_msg_def)
  have ec: "\<exists>m\<in>set (queue gui_quit_click). is_quit m"
    by (simp add: gui_quit_click_def is_quit_def)
  have hc: "handled (queue gui_quit_click) = []"
    by (simp add: gui_quit_click_def handled_def is_quit_def)
  from progress_callback_contract [where s = gui_quit_click and pb = 7 and milestone = True]
       nc wc ec hc
  have 6: "fst (progress 7 True gui_quit_click) = Inr True"
    "\<not> s_cancel (snd (progress 7 True gui_quit_click))"
    by simp_all
  from n 1 st fl a 2 4 5 6 show ?thesis
    unfolding 3 by (simp add: steps_def gui_created_def)
qed

lemma fgGuiDialogProgress_destroys_window:
  assumes "fgCreateDialog title
             \<lparr>progressSteps = n, hwndThis = 0, hwndPb = 0, hwndButton = 0\<rparr> s = (Inr (h, d), s1)"
  shows "dlg (snd (fgGuiDialogProgress fgCreateDialog title n actionProgress s)) h = None"
  unfolding fgGuiDialogProgress_runs_work
              [where fgCreateDialog = fgCreateDialog and actionProgress = actionProgress,
               OF assms]
  by (simp split: prod.split)

lemma fgGuiDialogProgress_failing_work:
  "fgGuiDialogProgress fgCreateDialog_win ''Working'' 10 failing_work gui_start =
     (Inl (UserException ''out of memory''),
      gui_created\<lparr>s_cancel := False, sent := sent gui_created @ [(7, PBM_STEPIT)],
                  dlg := Map.empty\<rparr>)"
  unfolding fgGuiDialogProgress_runs_work
              [where fgCreateDialog = fgCreateDialog_win and actionProgress = failing_work,
               OF fgCreateDialog_win_run]
  by (simp add: failing_work_def bnd_def progress_def gui_created_def dlg_obj_def)

section \<open>Properties of the splash screen\<close>

lemma thn_SetWindowPos [simp]:
  "thn (SetWindowPos h x y cx cy) k s = k (s\<lparr>placement := (placement s)(h \<mapsto> (x, y, cx, cy))\<rparr>)"
  by (simp add: thn_def bnd_def SetWindowPos_def)

lemma thn_draw [simp]:
  "thn (draw h w ht) k s = k (s\<lparr>drawn := drawn s @ [(h, w, ht)]\<rparr>)"
  by (simp add: thn_def bnd_def draw_def)

lemma thn_update [simp]:
  "thn (\<lambda>s. (Inr (), f s)) k s = k (f s)"
  by (simp add: thn_def bnd_def)

lemma fgGuiDialogSplashScreen_shown:
  "new_splash os \<noteq> 0 \<Longrightarrow>
     fgGuiDialogSplashScreen os s =
       (Inr fgGuiWinDialogSplashClose,
        s\<lparr>splash_hwndThis := new_splash os,
           placement := (placement s)(new_splash os \<mapsto>
             ((right (workarea os) - left (workarea os) - s_splashSize) sdiv 2,
              (bottom (workarea os) - top (workarea os) - s_splashSize) sdiv 2,
              s_splashSize, s_splashSize)),
           visible := new_splash os # visible s\<rparr>)"
  by (simp add: fgGuiDialogSplashScreen_def CreateDialogIndirectParam_def splash_wndProc_def
        Let_def bnd_def)

lemma fgGuiDialogSplashScreen_failed:
  "new_splash os = 0 \<Longrightarrow> fgGuiDialogSplashScreen os s = (Inl (FgAssertWin 384), s)"
  by (simp add: fgGuiDialogSplashScreen_def CreateDialogIndirectParam_def)

lemma sdiv_2_near: "\<bar>2 * ((k::int) sdiv 2) - k\<bar> \<le> 1"
proof (cases "0 \<le> k")
  case True
  then have "k sdiv 2 = k div 2"
    by (simp add: signed_divide_int_def sgn_if)
  then show ?thesis by (simp; presburger)
next
  case False
  then have "k sdiv 2 = - ((- k) div 2)"
    by (simp add: signed_divide_int_def sgn_if)
  then show ?thesis by (simp; presburger)
qed

lemma splash_centred_at_origin:
  assumes "left (workarea os) = 0" and "top (workarea os) = 0"
  shows "centred (workarea os)
           ((right (workarea os) - left (workarea os) - s_splashSize) sdiv 2,
            (bottom (workarea os) - top (workarea os) - s_splashSize) sdiv 2,
            s_splashSize, s_splashSize)"
  using sdiv_2_near [of "right (workarea os) - s_splashSize"]
        sdiv_2_near [of "bottom (workarea os) - s_splashSize"] assms
  by (simp add: centred_def; linarith)

lemma splash_off_centre:
  assumes "2 \<le> \<bar>left (workarea os)\<bar> \<or> 2 \<le> \<bar>top (workarea os)\<bar>"
  shows "\<not> centred (workarea os)
           ((right (workarea os) - left (workarea os) - s_splashSize) sdiv 2,
            (bottom (workarea os) - top (workarea os) - s_splashSize) sdiv 2,
            s_splashSize, s_splashSize)"
  using sdiv_2_near [of "right (workarea os) - left (workarea os) - s_splashSize"]
        sdiv_2_near [of "bottom (workarea os) - top (workarea os) - s_splashSize"] assms
  by (simp add: centred_def; linarith)

lemma splash_paint_size:
  "DrawIconEx_ok os \<or> \<not> icon_found os \<Longrightarrow>
     splash_wndProc os h WM_PAINT s = (Inr 0, s\<lparr>drawn := drawn s @ [(h, 256, 256)]\<rparr>)"
  by (auto simp add: splash_wndProc_def s_splashSize_def)

lemma splash_close_once:
  "splash_hwndThis s \<noteq> 0 \<Longrightarrow>
     fgGuiWinDialogSplashClose s =
       (Inr (), s\<lparr>visible := removeAll (splash_hwndThis s) (visible s),
                  end_calls := end_calls s @ [splash_hwndThis s]\<rparr>)"
  by (simp add: fgGuiWinDialogSplashClose_def EndDialog_def)

lemma splash_close_again:
  assumes "splash_hwndThis s \<noteq> 0" and "fgGuiWinDialogSplashClose s = (r, s1)"
  shows "fgGuiWinDialogSplashClose s1 =
           (Inr (), s1\<lparr>end_calls := end_calls s1 @ [splash_hwndThis s]\<rparr>)"
  using assms by (auto simp add: fgGuiWinDialogSplashClose_def EndDialog_def)

text \<open>
  C7: placement of the splash screen. On a work area that does not start at the screen's
  origin the 256 by 256 window is not centred in the work area: \<open>WM_INITDIALOG\<close> computes
  the offsets from the work area's width and height and passes them to \<open>SetWindowPos\<close>
  as screen coordinates, without adding the work area's \<open>left\<close> and \<open>top\<close>. With the
  taskbar docked left (work area from x = 100 to x = 1920) the window is placed at
  x = 782, leaving 682 pixels on its left and 882 on its right.
\<close>

theorem splash_off_centre_on_docked_work_area:
  "fst (fgGuiDialogSplashScreen os_docked splash_start) = Inr fgGuiWinDialogSplashClose
   \<and> placement (snd (fgGuiDialogSplashScreen os_docked splash_start)) 3
        = Some (782, 412, 256, 256)
   \<and> \<not> centred (workarea os_docked) (782, 412, 256, 256)"
  by (simp add: fgGuiDialogSplashScreen_shown os_docked_def splash_start_def s_splashSize_def
        centred_def signed_divide_int_def)

section \<open>Properties of the mesh operations\<close>

lemma accumulate_skips_unsupported:
  "accumulate A ms es acc =
     accumulate A ms (filter (\<lambda>e. findMorph ms (name e) \<noteq> None) es) acc"
proof (induction es arbitrary: acc)
  case Nil
  show ?case by simp
next
  case (Cons e es)
  show ?case
  proof (cases "findMorph ms (name e)")
    case None
    with Cons.IH show ?thesis by simp
  next
    case (Some m)
    with Cons.IH show ?thesis by (simp split: sum.split)
  qed
qed

lemma accumulate_none_supported:
  "\<forall>e\<in>set es. findMorph ms (name e) = None \<Longrightarrow> accumulate A ms es acc = Inr acc"
  by (induction es) simp_all

text \<open>
  C2: \<open>fgMergeMeshSurfaces m0 m1\<close> fails with the vertex-count-mismatch error when
  the vertex lists differ in length; otherwise it succeeds with the vertex and UV lists of
  \<open>m0\<close>. Of \<open>m1\<close> only the number of vertices and the surfaces matter: any mesh with
  as many vertices and the same surfaces gives the same result.
\<close>

theorem fgMergeMeshSurfaces_contract:
  "(length (verts m0) \<noteq> length (verts m1) \<longrightarrow>
      fgMergeMeshSurfaces m0 m1 = Inl VertexCountMismatch)
   \<and> (length (verts m0) = length (verts m1) \<longrightarrow>
        (\<exists>m. fgMergeMeshSurfaces m0 m1 = Inr m \<and> verts m = verts m0 \<and> uvs m = uvs m0))
   \<and> (length (verts m1') = length (verts m1) \<and> surfaces m1' = surfaces m1 \<longrightarrow>
        fgMergeMeshSurfaces m0 m1' = fgMergeMeshSurfaces m0 m1)"
  by (simp add: fgMergeMeshSurfaces_def)

theorem fgMergeMeshSurfaces_contract_witness:
  "fgMergeMeshSurfaces face eye = Inl VertexCountMismatch
   \<and> (\<exists>m. fgMergeMeshSurfaces face teeth = Inr m \<and> verts m = verts face \<and> uvs m = uvs face)
   \<and> fgMergeMeshSurfaces face (teeth\<lparr>verts := verts face, uvs := []\<rparr>)
        = fgMergeMeshSurfaces face teeth"
  using fgMergeMeshSurfaces_contract [of face eye]
        fgMergeMeshSurfaces_contract [of face teeth "teeth\<lparr>verts := verts face, uvs := []\<rparr>"]
  by (simp add: face_def teeth_def eye_def)

lemma addSparse_length:
  "addSparse A w ps acc = Inr acc' \<Longrightarrow> length acc' = length acc"
  by (induction A w ps acc rule: addSparse.induct) (auto split: if_splits)

lemma addMorph_length:
  "addMorph A w m acc = Inr acc' \<Longrightarrow> length acc' = length acc"
  by (auto simp add: addMorph_def addSparse_length split: deltas.splits if_splits)

lemma accumulate_length:
  "accumulate A ms es acc = Inr acc' \<Longrightarrow> length acc' = length acc"
proof (induction es arbitrary: acc)
  case Nil
  then show ?case by simp
next
  case (Cons e es)
  show ?case
  proof (cases "findMorph ms (name e)")
    case None
    with Cons show ?thesis by simp
  next
    case (Some m)
    with Cons.prems obtain acc1 where a: "addMorph A (val e) m acc = Inr acc1"
      and r: "accumulate A ms es acc1 = Inr acc'"
      by (auto split: sum.splits)
    from Cons.IH [OF r] addMorph_length [OF a] show ?thesis by simp
  qed
qed

lemma fgApplyExpression_length:
  "fgApplyExpression A mesh expression = Inr vs \<Longrightarrow> length vs = length (verts mesh)"
  by (auto simp add: fgApplyExpression_def split: sum.splits dest: accumulate_length)

lemma fgApplyExpression_filter:
  "fgApplyExpression A mesh expression =
     fgApplyExpression A mesh (filter (supported mesh) expression)"
proof -
  have s: "supported mesh = (\<lambda>e. findMorph (morphs mesh) (name e) \<noteq> None)"
    by (rule ext) (simp add: supported_def)
  show ?thesis
    unfolding fgApplyExpression_def s
    by (subst accumulate_skips_unsupported) (rule refl)
qed

text \<open>
  C3: \<open>fgApplyExpression\<close> skips the entries whose name is no morph target of the mesh.
  The result (a vertex list or an error) is that of the expression without its unsupported
  entries; in particular an unsupported entry anywhere in the expression can be left out,
  and an expression of unsupported entries only yields the base vertices plus zero and no
  error. The mesh is an argument only: the function returns a new vertex list, with one
  position for each vertex of the mesh.
\<close>

theorem fgApplyExpression_skips_unknown:
  "fgApplyExpression A mesh expression =
     fgApplyExpression A mesh (filter (supported mesh) expression)
   \<and> (\<not> supported mesh e \<longrightarrow>
        fgApplyExpression A mesh (xs @ e # ys) = fgApplyExpression A mesh (xs @ ys))
   \<and> ((\<forall>e\<in>set expression. \<not> supported mesh e) \<longrightarrow>
        fgApplyExpression A mesh expression =
          Inr (map (\<lambda>v. vadd A v (vzero A)) (verts mesh)))
   \<and> (\<forall>vs. fgApplyExpression A mesh expression = Inr vs \<longrightarrow>
        length vs = length (verts mesh))"
proof (intro conjI impI allI)
  show "fgApplyExpression A mesh expression =
          fgApplyExpression A mesh (filter (supported mesh) expression)"
    by (rule fgApplyExpression_filter)
next
  assume "\<not> supported mesh e"
  then have "filter (supported mesh) (xs @ e # ys) = filter (supported mesh) (xs @ ys)"
    by simp
  with fgApplyExpression_filter [of A mesh "xs @ e # ys"]
       fgApplyExpression_filter [of A mesh "xs @ ys"]
  show "fgApplyExpression A mesh (xs @ e # ys) = fgApplyExpression A mesh (xs @ ys)"
    by simp
next
  assume "\<forall>e\<in>set expression. \<not> supported mesh e"
  then have "\<forall>e\<in>set expression. findMorph (morphs mesh) (name e) = None"
    by (simp add: supported_def)
  from accumulate_none_supported [OF this]
  show "fgApplyExpression A mesh expression = Inr (map (\<lambda>v. vadd A v (vzero A)) (verts mesh))"
    by (simp add: fgApplyExpression_def zip_replicate2 comp_def)
next
  fix vs assume "fgApplyExpression A mesh expression = Inr vs"
  then show "length vs = length (verts mesh)" by (rule fgApplyExpression_length)
qed

theorem fgApplyExpression_skips_unknown_witness:
  "\<not> supported face \<lparr>name = ''frown'', val = 7::int\<rparr>
   \<and> fgApplyExpression int3 face
        [\<lparr>name = ''smile'', val = 2\<rparr>, \<lparr>name = ''frown'', val = 7\<rparr>, \<lparr>name = ''blink'', val = 3\<rparr>]
      = fgApplyExpression int3 face [\<lparr>name = ''smile'', val = 2\<rparr>, \<lparr>name = ''blink'', val = 3\<rparr>]
   \<and> fgApplyExpression int3 face [\<lparr>name = ''smile'', val = 2\<rparr>, \<lparr>name = ''blink'', val = 3\<rparr>]
      = Inr [(2, 0, 0), (10, 2, 0), (0, 10, 17)]
   \<and> fgApplyExpression int3 face [\<lparr>name = ''frown'', val = 7\<rparr>] = Inr (verts face)"
proof -
  have u: "\<not> supported face \<lparr>name = ''frown'', val = 7::int\<rparr>"
    by (simp add: supported_def findMorph_def face_def)
  then have a: "\<forall>e\<in>set [\<lparr>name = ''frown'', val = 7::int\<rparr>]. \<not> supported face e"
    by simp
  have v: "fgApplyExpression int3 face
             [\<lparr>name = ''smile'', val = 2\<rparr>, \<lparr>name = ''blink'', val = 3\<rparr>]
           = Inr [(2, 0, 0), (10, 2, 0), (0, 10, 17)]"
    by (simp add: fgApplyExpression_def findMorph_def addMorph_def face_def int3_def)
  have z: "map (\<lambda>v. vadd int3 v (vzero int3)) (verts face) = verts face"
    by (simp add: int3_def face_def)
  note t = fgApplyExpression_skips_unknown
         [where A = int3 and mesh = face and e = "\<lparr>name = ''frown'', val = 7\<rparr>"
            and xs = "[\<lparr>name = ''smile'', val = 2\<rparr>]" and ys = "[\<lparr>name = ''blink'', val = 3\<rparr>]"
            and expression = "[\<lparr>name = ''frown'', val = 7\<rparr>]"]
  from t u have 1: "fgApplyExpression int3 face
        ([\<lparr>name = ''smile'', val = 2\<rparr>] @ \<lparr>name = ''frown'', val = 7\<rparr> # [\<lparr>name = ''blink'', val = 3\<rparr>])
      = fgApplyExpression int3 face ([\<lparr>name = ''smile'', val = 2\<rparr>] @ [\<lparr>name = ''blink'', val = 3\<rparr>])"
    by blast
  from t a have 2: "fgApplyExpression int3 face [\<lparr>name = ''frown'', val = 7\<rparr>]
      = Inr (map (\<lambda>v. vadd int3 v (vzero int3)) (verts face))"
    by blast
  from 1 have 3: "fgApplyExpression int3 face
        [\<lparr>name = ''smile'', val = 2\<rparr>, \<lparr>name = ''frown'', val = 7\<rparr>, \<lparr>name = ''blink'', val = 3\<rparr>]
      = fgApplyExpression int3 face [\<lparr>name = ''smile'', val = 2\<rparr>, \<lparr>name = ''blink'', val = 3\<rparr>]"
    by simp
  from 2 have 4: "fgApplyExpression int3 face [\<lparr>name = ''frown'', val = 7\<rparr>] = Inr (verts face)"
    unfolding z .
  from u 3 v 4 show ?thesis by blast
qed

end
